theory Spec2Isabelle
  imports Complex_Main
begin

section \<open>Conventions of the embedding\<close>

text \<open>
  The package computes with IEEE doubles. The embedding reads every finite double as the
  real number it denotes and every arithmetic operation as the exact operation on reals
  (\<open>math.exp\<close>, \<open>math.log\<close> and \<open>math.sqrt\<close> are \<open>exp\<close>, \<open>ln\<close> and \<open>sqrt\<close>). The
  rounding of these operations and the overflow of \<open>math.exp\<close> are not modelled, so a
  statement about a numerical tolerance of the computed doubles is outside the embedding.
  Where numpy produces a value that is not a finite number without raising (the mean of
  an empty array, a division by zero of a \<open>numpy.float64\<close>), the value is \<open>None\<close> of the
  type \<open>npfloat\<close>.

  Functions of scipy and numpy that the package calls but does not define (the standard
  normal distribution function, its density and its quantile function, the seeding of the
  global generator and the drawing of one standard normal value from it) are taken as
  parameters, collected in the record \<open>numlib\<close>. Nothing is assumed of them beyond what a
  theorem states: on doubles \<open>norm.cdf\<close> returns exactly \<open>1.0\<close> and \<open>0.0\<close> far in the tails
  and \<open>norm.pdf\<close> returns \<open>0.0\<close> there, so the distribution function is only known to lie
  in the closed interval from 0 to 1 and the density only to be non-negative. The global
  generator of \<open>numpy.random\<close> is a state of type \<open>'g\<close> that is passed through every
  function that draws from it.
\<close>

type_synonym npfloat = "real option"

record 'g numlib =
  norm_cdf :: "real \<Rightarrow> real"
  norm_pdf :: "real \<Rightarrow> real"
  norm_ppf :: "real \<Rightarrow> real"
  seed_state :: "int \<Rightarrow> 'g"
  draw_normal :: "'g \<Rightarrow> real \<times> 'g"

definition fl_sub :: "npfloat \<Rightarrow> npfloat \<Rightarrow> npfloat" where
  "fl_sub a b = (case a of None \<Rightarrow> None | Some x \<Rightarrow> (case b of None \<Rightarrow> None | Some y \<Rightarrow> Some (x - y)))"

definition fl_add :: "npfloat \<Rightarrow> npfloat \<Rightarrow> npfloat" where
  "fl_add a b = (case a of None \<Rightarrow> None | Some x \<Rightarrow> (case b of None \<Rightarrow> None | Some y \<Rightarrow> Some (x + y)))"

definition fl_scale :: "real \<Rightarrow> npfloat \<Rightarrow> npfloat" where
  "fl_scale c a = (case a of None \<Rightarrow> None | Some x \<Rightarrow> Some (c * x))"

definition fl_div :: "npfloat \<Rightarrow> real \<Rightarrow> npfloat" where
  "fl_div a b = (case a of None \<Rightarrow> None | Some x \<Rightarrow> if b = 0 then None else Some (x / b))"

section \<open>utils/constants.py and utils/exceptions.py\<close>

definition SQRT_2PI :: real where "SQRT_2PI = sqrt (2 * pi)"
definition CALENDAR_DAYS_PER_YEAR :: real where "CALENDAR_DAYS_PER_YEAR = 365"
definition DEFAULT_NUM_SIMULATIONS :: int where "DEFAULT_NUM_SIMULATIONS = 10000"
definition DEFAULT_RANDOM_SEED :: int where "DEFAULT_RANDOM_SEED = 42"
definition DEFAULT_NUM_STEPS :: int where "DEFAULT_NUM_STEPS = 100"
definition IV_SOLVER_TOLERANCE :: real where "IV_SOLVER_TOLERANCE = 1 / 100000"
definition IV_SOLVER_MAX_ITERATIONS :: int where "IV_SOLVER_MAX_ITERATIONS = 50"
definition IV_INITIAL_GUESS :: real where "IV_INITIAL_GUESS = 3 / 10"
definition IV_MIN_VALUE :: real where "IV_MIN_VALUE = 1 / 1000"
definition IV_MAX_VALUE :: real where "IV_MAX_VALUE = 5"

text \<open>
  The messages of \<open>ImpliedVolatilityError\<close> are told apart by a tag. The error pydantic
  raises when a field of \<open>Option\<close> violates its bound carries the names of the offending
  fields, in the order of declaration. The last three errors are raised by Python and
  numpy themselves.
\<close>

datatype iv_failure =
  BelowIntrinsic | PriceNotPositive | VegaTooSmall | NewtonNotConverged | BisectionNotConverged

datatype error =
  PydanticValidationError "string list"
  | InvalidOptionError
  | ImpliedVolatilityError iv_failure
  | ZeroDivisionError
  | ValueError
  | IndexError

section \<open>models/base.py\<close>

datatype OptionType = CALL | PUT

datatype ExerciseStyle = EUROPEAN | AMERICAN

record Option =
  spot_price :: real
  strike_price :: real
  time_to_expiry :: real
  volatility :: real
  risk_free_rate :: real
  option_type :: OptionType
  exercise_style :: ExerciseStyle
  dividend_yield :: real

text \<open>
  \<open>Option(**kwargs)\<close>: pydantic checks \<open>gt=0\<close> on spot, strike, time and volatility and
  \<open>ge=0\<close> on the dividend yield, collects every violation and raises one error. The
  argument is the record of the keyword arguments; a validated contract is the same record.
\<close>

definition field_errors :: "Option \<Rightarrow> string list" where
  "field_errors kw =
     (if spot_price kw > 0 then [] else [''spot_price''])
     @ (if strike_price kw > 0 then [] else [''strike_price''])
     @ (if time_to_expiry kw > 0 then [] else [''time_to_expiry''])
     @ (if volatility kw > 0 then [] else [''volatility''])
     @ (if dividend_yield kw \<ge> 0 then [] else [''dividend_yield''])"

definition Option_init :: "Option \<Rightarrow> error + Option" where
  "Option_init kw =
     (if field_errors kw = [] then Inr kw else Inl (PydanticValidationError (field_errors kw)))"

text \<open>
  \<open>Option\<close> is a pydantic \<open>BaseModel\<close> whose \<open>model_config\<close> is
  \<open>ConfigDict(use_enum_values=False)\<close>: it sets neither \<open>frozen\<close> nor
  \<open>validate_assignment\<close>, so the assignment \<open>option.time_to_expiry = v\<close> on an existing
  object stores \<open>v\<close> and runs no check of the field.
\<close>

definition Option_setattr_time_to_expiry :: "Option \<Rightarrow> real \<Rightarrow> Option" where
  "Option_setattr_time_to_expiry opt v = opt\<lparr>time_to_expiry := v\<rparr>"

record Greeks =
  delta :: npfloat
  gamma :: npfloat
  theta :: npfloat
  vega :: npfloat
  rho :: npfloat

text \<open>
  The three engines. A value of this type is an engine object: the contract it holds and
  the configuration its constructor was given.
\<close>

datatype PricingModel =
  BlackScholesModel Option
  | BinomialTreeModel Option int
  | MonteCarloModel Option int bool "int option"

fun model_option :: "PricingModel \<Rightarrow> Option" where
  "model_option (BlackScholesModel opt) = opt"
| "model_option (BinomialTreeModel opt num_steps) = opt"
| "model_option (MonteCarloModel opt num_simulations use_antithetic random_seed) = opt"

section \<open>models/black\_scholes.py\<close>

definition BlackScholesModel_init :: "Option \<Rightarrow> error + PricingModel" where
  "BlackScholesModel_init opt =
     (if exercise_style opt \<noteq> EUROPEAN then Inl InvalidOptionError
      else Inr (BlackScholesModel opt))"

definition calculate_d1_d2 :: "Option \<Rightarrow> real \<times> real" where
  "calculate_d1_d2 opt =
     (let S = spot_price opt; K = strike_price opt; T = time_to_expiry opt;
          r = risk_free_rate opt; q = dividend_yield opt; sigma = volatility opt;
          sqrt_T = sqrt T;
          sigma_sqrt_T = sigma * sqrt_T;
          d1 = (ln (S / K) + (r - q + 0.5 * sigma ^ 2) * T) / sigma_sqrt_T;
          d2 = d1 - sigma_sqrt_T
      in (d1, d2))"

text \<open>
  The methods call \<open>norm.cdf\<close> and \<open>norm.pdf\<close> of scipy; the two functions are the
  arguments \<open>cdf\<close> and \<open>pdf\<close> below.
\<close>

definition BlackScholesModel_price :: "(real \<Rightarrow> real) \<Rightarrow> Option \<Rightarrow> real" where
  "BlackScholesModel_price cdf opt =
     (let (d1, d2) = calculate_d1_d2 opt;
          S = spot_price opt; K = strike_price opt; T = time_to_expiry opt;
          r = risk_free_rate opt; q = dividend_yield opt;
          pv_S = S * exp (- q * T);
          pv_K = K * exp (- r * T)
      in if option_type opt = CALL then pv_S * cdf d1 - pv_K * cdf d2
         else pv_K * cdf (- d2) - pv_S * cdf (- d1))"

definition BlackScholesModel_delta :: "(real \<Rightarrow> real) \<Rightarrow> Option \<Rightarrow> real" where
  "BlackScholesModel_delta cdf opt =
     (let (d1, d2) = calculate_d1_d2 opt;
          q = dividend_yield opt; T = time_to_expiry opt;
          discount = exp (- q * T)
      in if option_type opt = CALL then discount * cdf d1
         else - discount * cdf (- d1))"

definition BlackScholesModel_gamma :: "(real \<Rightarrow> real) \<Rightarrow> Option \<Rightarrow> real" where
  "BlackScholesModel_gamma pdf opt =
     (let (d1, d2) = calculate_d1_d2 opt;
          S = spot_price opt; T = time_to_expiry opt;
          q = dividend_yield opt; sigma = volatility opt;
          discount = exp (- q * T);
          sqrt_T = sqrt T;
          phi_d1 = pdf d1
      in (discount * phi_d1) / (S * sigma * sqrt_T))"

definition BlackScholesModel_theta ::
  "(real \<Rightarrow> real) \<Rightarrow> (real \<Rightarrow> real) \<Rightarrow> Option \<Rightarrow> real" where
  "BlackScholesModel_theta cdf pdf opt =
     (let (d1, d2) = calculate_d1_d2 opt;
          S = spot_price opt; K = strike_price opt; T = time_to_expiry opt;
          r = risk_free_rate opt; q = dividend_yield opt; sigma = volatility opt;
          sqrt_T = sqrt T;
          phi_d1 = pdf d1;
          term1 = - (S * sigma * exp (- q * T) * phi_d1) / (2 * sqrt_T);
          theta_per_year =
            (if option_type opt = CALL
             then term1 + q * S * exp (- q * T) * cdf d1 + (- r * K * exp (- r * T) * cdf d2)
             else term1 + (- q * S * exp (- q * T) * cdf (- d1)) + r * K * exp (- r * T) * cdf (- d2))
      in theta_per_year / CALENDAR_DAYS_PER_YEAR)"

definition BlackScholesModel_vega :: "(real \<Rightarrow> real) \<Rightarrow> Option \<Rightarrow> real" where
  "BlackScholesModel_vega pdf opt =
     (let (d1, d2) = calculate_d1_d2 opt;
          S = spot_price opt; T = time_to_expiry opt; q = dividend_yield opt;
          sqrt_T = sqrt T;
          phi_d1 = pdf d1;
          discount = exp (- q * T)
      in S * discount * sqrt_T * phi_d1 / 100)"

definition BlackScholesModel_rho :: "(real \<Rightarrow> real) \<Rightarrow> Option \<Rightarrow> real" where
  "BlackScholesModel_rho cdf opt =
     (let (d1, d2) = calculate_d1_d2 opt;
          K = strike_price opt; T = time_to_expiry opt; r = risk_free_rate opt;
          pv_K = K * exp (- r * T)
      in if option_type opt = CALL then pv_K * T * cdf d2 / 100
         else - pv_K * T * cdf (- d2) / 100)"

definition BlackScholesModel_greeks ::
  "(real \<Rightarrow> real) \<Rightarrow> (real \<Rightarrow> real) \<Rightarrow> Option \<Rightarrow> Greeks" where
  "BlackScholesModel_greeks cdf pdf opt =
     \<lparr> delta = Some (BlackScholesModel_delta cdf opt),
       gamma = Some (BlackScholesModel_gamma pdf opt),
       theta = Some (BlackScholesModel_theta cdf pdf opt),
       vega = Some (BlackScholesModel_vega pdf opt),
       rho = Some (BlackScholesModel_rho cdf opt) \<rparr>"

section \<open>models/binomial.py\<close>

definition BinomialTreeModel_init :: "Option \<Rightarrow> int \<Rightarrow> error + PricingModel" where
  "BinomialTreeModel_init opt num_steps = Inr (BinomialTreeModel opt num_steps)"

text \<open>
  \<open>tree[i, j]\<close> of \<open>_build_stock_tree\<close>, for a tree of \<open>n\<close> steps: the entries with
  \<open>j > i\<close> keep the zero they were created with.
\<close>

definition build_stock_tree :: "Option \<Rightarrow> nat \<Rightarrow> nat \<Rightarrow> nat \<Rightarrow> real" where
  "build_stock_tree opt n i j =
     (let S = spot_price opt; sigma = volatility opt; T = time_to_expiry opt;
          dt = T / real n;
          u = exp (sigma * sqrt dt);
          d = 1 / u
      in if j \<le> i then S * (u ^ j) * (d ^ (i - j)) else 0)"

definition calculate_risk_neutral_probability :: "Option \<Rightarrow> nat \<Rightarrow> real" where
  "calculate_risk_neutral_probability opt n =
     (let r = risk_free_rate opt; q = dividend_yield opt;
          T = time_to_expiry opt; sigma = volatility opt;
          dt = T / real n;
          u = exp (sigma * sqrt dt);
          d = 1 / u
      in (exp ((r - q) * dt) - d) / (u - d))"

definition get_payoff :: "Option \<Rightarrow> real \<Rightarrow> real" where
  "get_payoff opt stock_price =
     (let K = strike_price opt
      in if option_type opt = CALL then max (stock_price - K) 0 else max (K - stock_price) 0)"

text \<open>
  The backward induction of \<open>price\<close> writes row \<open>i\<close> of \<open>option_tree\<close> from row \<open>i + 1\<close>
  alone, so the loop over \<open>i\<close> carries one row: \<open>terminal_values\<close> is row \<open>n\<close>,
  \<open>induct_row\<close> is the inner loop over \<open>j\<close> for one \<open>i\<close>, and \<open>backward_induction k\<close> runs
  the outer loop for \<open>i = k - 1\<close> down to \<open>0\<close>.
\<close>

definition terminal_values :: "Option \<Rightarrow> nat \<Rightarrow> real list" where
  "terminal_values opt n = map (\<lambda>j. get_payoff opt (build_stock_tree opt n n j)) [0..<n + 1]"

definition node_value :: "Option \<Rightarrow> nat \<Rightarrow> nat \<Rightarrow> nat \<Rightarrow> real list \<Rightarrow> real" where
  "node_value opt n i j row =
     (let p = calculate_risk_neutral_probability opt n;
          r = risk_free_rate opt; T = time_to_expiry opt;
          dt = T / real n;
          discount = exp (- r * dt);
          hold_value = discount * (p * (row ! (j + 1)) + (1 - p) * (row ! j))
      in if exercise_style opt = AMERICAN
         then max hold_value (get_payoff opt (build_stock_tree opt n i j))
         else hold_value)"

definition induct_row :: "Option \<Rightarrow> nat \<Rightarrow> nat \<Rightarrow> real list \<Rightarrow> real list" where
  "induct_row opt n i row = map (\<lambda>j. node_value opt n i j row) [0..<i + 1]"

fun backward_induction :: "Option \<Rightarrow> nat \<Rightarrow> nat \<Rightarrow> real list \<Rightarrow> real list" where
  "backward_induction opt n 0 row = row"
| "backward_induction opt n (Suc i) row = backward_induction opt n i (induct_row opt n i row)"

text \<open>
  With \<open>num_steps = 0\<close> the division \<open>T / self.num_steps\<close> raises; with \<open>num_steps = -1\<close>
  the arrays are empty and \<open>option_tree[0, 0]\<close> raises; below that \<open>np.zeros\<close> refuses
  the negative dimension.
\<close>

definition BinomialTreeModel_price :: "Option \<Rightarrow> int \<Rightarrow> error + real" where
  "BinomialTreeModel_price opt num_steps =
     (if num_steps = 0 then Inl ZeroDivisionError
      else if num_steps = - 1 then Inl IndexError
      else if num_steps < - 1 then Inl ValueError
      else (let n = nat num_steps
            in Inr (backward_induction opt n n (terminal_values opt n) ! 0)))"

section \<open>models/monte\_carlo.py\<close>

text \<open>
  The constructor; an argument left out is \<open>None\<close> here and takes its default. The seed
  itself is optional in Python, so a seed argument is \<open>None\<close> (left out),
  \<open>Some None\<close> (\<open>random_seed=None\<close>) or \<open>Some (Some s)\<close>.
\<close>

definition MonteCarloModel_init ::
  "Option \<Rightarrow> int option \<Rightarrow> bool option \<Rightarrow> int option option \<Rightarrow> error + PricingModel" where
  "MonteCarloModel_init opt num_simulations use_antithetic random_seed =
     (if exercise_style opt \<noteq> EUROPEAN then Inl InvalidOptionError
      else Inr (MonteCarloModel opt
             (case num_simulations of None \<Rightarrow> DEFAULT_NUM_SIMULATIONS | Some m \<Rightarrow> m)
             (case use_antithetic of None \<Rightarrow> True | Some a \<Rightarrow> a)
             (case random_seed of None \<Rightarrow> Some DEFAULT_RANDOM_SEED | Some s \<Rightarrow> s)))"

text \<open>The two cached attributes \<open>_last_paths\<close> and \<open>_standard_error\<close> of the object.\<close>

record MonteCarloCache =
  last_paths :: "real list option"
  standard_error :: "npfloat option"

definition empty_cache :: MonteCarloCache where
  "empty_cache = \<lparr> last_paths = None, standard_error = None \<rparr>"

text \<open>\<open>np.random.seed\<close> accepts the seeds from \<open>0\<close> to \<open>2^32 - 1\<close>.\<close>

definition np_random_seed :: "'g numlib \<Rightarrow> int \<Rightarrow> 'g \<Rightarrow> (error + unit) \<times> 'g" where
  "np_random_seed lib s g =
     (if 0 \<le> s \<and> s < 2 ^ 32 then (Inr (), seed_state lib s) else (Inl ValueError, g))"

fun draws :: "('g \<Rightarrow> real \<times> 'g) \<Rightarrow> nat \<Rightarrow> 'g \<Rightarrow> real list \<times> 'g" where
  "draws dr 0 g = ([], g)"
| "draws dr (Suc n) g =
     (case dr g of (z, g1) \<Rightarrow> (case draws dr n g1 of (zs, g2) \<Rightarrow> (z # zs, g2)))"

definition np_random_standard_normal :: "'g numlib \<Rightarrow> int \<Rightarrow> 'g \<Rightarrow> (error + real list) \<times> 'g" where
  "np_random_standard_normal lib n g =
     (if n < 0 then (Inl ValueError, g)
      else (case draws (draw_normal lib) (nat n) g of (zs, g') \<Rightarrow> (Inr zs, g')))"

definition np_mean :: "real list \<Rightarrow> npfloat" where
  "np_mean xs = (if xs = [] then None else Some (sum_list xs / real (length xs)))"

definition np_std_ddof1 :: "real list \<Rightarrow> npfloat" where
  "np_std_ddof1 xs =
     (if length xs \<le> 1 then None
      else (let m = sum_list xs / real (length xs)
            in Some (sqrt (sum_list (map (\<lambda>x. (x - m) ^ 2) xs) / real (length xs - 1)))))"

definition generate_price_paths ::
  "'g numlib \<Rightarrow> PricingModel \<Rightarrow> 'g \<Rightarrow> (error + real list) \<times> 'g" where
  "generate_price_paths lib m g =
     (case m of
        MonteCarloModel opt num_simulations use_antithetic random_seed \<Rightarrow>
          (case (case random_seed of None \<Rightarrow> (Inr (), g) | Some s \<Rightarrow> np_random_seed lib s g) of
             (Inl e, g0) \<Rightarrow> (Inl e, g0)
           | (Inr u, g0) \<Rightarrow>
               (let S = spot_price opt; r = risk_free_rate opt; q = dividend_yield opt;
                    sigma = volatility opt; T = time_to_expiry opt;
                    drift = (r - q - 0.5 * sigma ^ 2) * T;
                    diffusion = sigma * sqrt T
                in (case (if use_antithetic
                          then (case np_random_standard_normal lib (num_simulations div 2) g0 of
                                  (Inl e, g1) \<Rightarrow> (Inl e, g1)
                                | (Inr Z, g1) \<Rightarrow> (Inr (Z @ map uminus Z), g1))
                          else np_random_standard_normal lib num_simulations g0) of
                      (Inl e, g1) \<Rightarrow> (Inl e, g1)
                    | (Inr Z_anti, g1) \<Rightarrow>
                        (Inr (map (\<lambda>z. S * exp (drift + diffusion * z)) Z_anti), g1))))
      | _ \<Rightarrow> (Inl ValueError, g))"

definition calculate_payoffs :: "Option \<Rightarrow> real list \<Rightarrow> real list" where
  "calculate_payoffs opt stock_prices =
     (let K = strike_price opt
      in if option_type opt = CALL then map (\<lambda>s. max (s - K) 0) stock_prices
         else map (\<lambda>s. max (K - s) 0) stock_prices)"

text \<open>
  \<open>MonteCarloModel.price\<close> returns the price and leaves the paths and the standard error
  in the object's cache; an exception leaves the cache as it was.
\<close>

definition MonteCarloModel_price ::
  "'g numlib \<Rightarrow> PricingModel \<Rightarrow> MonteCarloCache \<Rightarrow> 'g \<Rightarrow> (error + npfloat) \<times> MonteCarloCache \<times> 'g" where
  "MonteCarloModel_price lib m cache g =
     (case generate_price_paths lib m g of
        (Inl e, g1) \<Rightarrow> (Inl e, cache, g1)
      | (Inr ST, g1) \<Rightarrow>
          (let opt = model_option m;
               num_simulations = (case m of MonteCarloModel _ n _ _ \<Rightarrow> n | _ \<Rightarrow> 0);
               payoffs = calculate_payoffs opt ST;
               r = risk_free_rate opt; T = time_to_expiry opt;
               discount_factor = exp (- r * T);
               price = fl_scale discount_factor (np_mean payoffs);
               std_payoffs = np_std_ddof1 payoffs;
               se = fl_div (fl_scale discount_factor std_payoffs) (sqrt (real_of_int num_simulations))
           in (Inr price, \<lparr> last_paths = Some ST, standard_error = Some se \<rparr>, g1)))"

text \<open>
  \<open>get_confidence_interval\<close> calls \<open>price\<close> in both branches of its test, so the standard
  error it reads is the one that call has just stored.
\<close>

definition get_confidence_interval ::
  "'g numlib \<Rightarrow> PricingModel \<Rightarrow> real \<Rightarrow> MonteCarloCache \<Rightarrow> 'g
     \<Rightarrow> (error + npfloat \<times> npfloat) \<times> MonteCarloCache \<times> 'g" where
  "get_confidence_interval lib m confidence_level cache g =
     (case MonteCarloModel_price lib m cache g of
        (Inl e, cache1, g1) \<Rightarrow> (Inl e, cache1, g1)
      | (Inr price, cache1, g1) \<Rightarrow>
          (let z = norm_ppf lib ((1 + confidence_level) / 2);
               margin = fl_scale z (case standard_error cache1 of None \<Rightarrow> None | Some se \<Rightarrow> se)
           in (Inr (fl_sub price margin, fl_add price margin), cache1, g1)))"

section \<open>greeks/calculator.py\<close>

text \<open>
  The calculator works on any engine: it reads \<open>model.option\<close>, calls \<open>model.price()\<close>
  and builds engines of the same class on perturbed contracts. Every step may raise and
  a Monte Carlo price draws from the global generator, so the methods are computations
  over the generator state that return an error or a value.
\<close>

type_synonym ('a, 'g) comp = "'g \<Rightarrow> (error + 'a) \<times> 'g"

definition returns :: "'a \<Rightarrow> ('a, 'g) comp" where
  "returns x = (\<lambda>g. (Inr x, g))"

definition lift :: "error + 'a \<Rightarrow> ('a, 'g) comp" where
  "lift r = (\<lambda>g. (r, g))"

definition bind :: "('a, 'g) comp \<Rightarrow> ('a \<Rightarrow> ('b, 'g) comp) \<Rightarrow> ('b, 'g) comp" where
  "bind c f = (\<lambda>g. case c g of (Inl e, g1) \<Rightarrow> (Inl e, g1) | (Inr x, g1) \<Rightarrow> f x g1)"

text \<open>
  \<open>model.price()\<close> for each class. The engines built by the calculator are new objects;
  the cache of a Monte Carlo engine is written by \<open>price\<close> and never read by the
  calculator, so it is dropped here.
\<close>

definition price :: "'g numlib \<Rightarrow> PricingModel \<Rightarrow> (npfloat, 'g) comp" where
  "price lib m =
     (case m of
        BlackScholesModel opt \<Rightarrow> returns (Some (BlackScholesModel_price (norm_cdf lib) opt))
      | BinomialTreeModel opt num_steps \<Rightarrow>
          (case BinomialTreeModel_price opt num_steps of
             Inl e \<Rightarrow> lift (Inl e) | Inr v \<Rightarrow> returns (Some v))
      | MonteCarloModel opt num_simulations use_antithetic random_seed \<Rightarrow>
          (\<lambda>g. case MonteCarloModel_price lib m empty_cache g of (r, cache, g1) \<Rightarrow> (r, g1)))"

text \<open>\<open>self.model.__class__(option, *self._get_model_args())\<close>\<close>

definition rebuild :: "PricingModel \<Rightarrow> Option \<Rightarrow> error + PricingModel" where
  "rebuild m opt =
     (case m of
        BlackScholesModel _ \<Rightarrow> BlackScholesModel_init opt
      | BinomialTreeModel _ num_steps \<Rightarrow> BinomialTreeModel_init opt num_steps
      | MonteCarloModel _ num_simulations use_antithetic random_seed \<Rightarrow>
          MonteCarloModel_init opt (Some num_simulations) (Some use_antithetic) (Some random_seed))"

definition NumericalGreeksCalculator_delta ::
  "'g numlib \<Rightarrow> PricingModel \<Rightarrow> real \<Rightarrow> (npfloat, 'g) comp" where
  "NumericalGreeksCalculator_delta lib model h_pct =
     (let original_spot = spot_price (model_option model);
          h = original_spot * h_pct
      in bind (lift (Option_init ((model_option model)\<lparr>spot_price := original_spot + h\<rparr>))) (\<lambda>option_up.
         bind (lift (Option_init ((model_option model)\<lparr>spot_price := original_spot - h\<rparr>))) (\<lambda>option_down.
         bind (lift (rebuild model option_up)) (\<lambda>model_up.
         bind (lift (rebuild model option_down)) (\<lambda>model_down.
         bind (price lib model_up) (\<lambda>price_up.
         bind (price lib model_down) (\<lambda>price_down.
         returns (fl_div (fl_sub price_up price_down) (2 * h)))))))))"

definition NumericalGreeksCalculator_gamma ::
  "'g numlib \<Rightarrow> PricingModel \<Rightarrow> real \<Rightarrow> (npfloat, 'g) comp" where
  "NumericalGreeksCalculator_gamma lib model h_pct =
     (let original_spot = spot_price (model_option model);
          h = original_spot * h_pct
      in bind (price lib model) (\<lambda>price0.
         bind (lift (Option_init ((model_option model)\<lparr>spot_price := original_spot + h\<rparr>))) (\<lambda>option_up.
         bind (lift (Option_init ((model_option model)\<lparr>spot_price := original_spot - h\<rparr>))) (\<lambda>option_down.
         bind (lift (rebuild model option_up)) (\<lambda>model_up.
         bind (lift (rebuild model option_down)) (\<lambda>model_down.
         bind (price lib model_up) (\<lambda>price_up.
         bind (price lib model_down) (\<lambda>price_down.
         returns (fl_div (fl_add (fl_sub price_up (fl_scale 2 price0)) price_down) (h ^ 2))))))))))"

definition NumericalGreeksCalculator_theta ::
  "'g numlib \<Rightarrow> PricingModel \<Rightarrow> real \<Rightarrow> (npfloat, 'g) comp" where
  "NumericalGreeksCalculator_theta lib model h =
     (let original_T = time_to_expiry (model_option model)
      in if original_T \<le> h
         then bind (price lib model) (\<lambda>price0. returns (fl_div (fl_scale (- 1) price0) h))
         else
           bind (lift (Option_init ((model_option model)\<lparr>time_to_expiry := original_T - h\<rparr>))) (\<lambda>option_later.
           bind (price lib model) (\<lambda>price_now.
           bind (lift (rebuild model option_later)) (\<lambda>model_later.
           bind (price lib model_later) (\<lambda>price_later.
           (let theta = fl_div (fl_sub price_later price_now) h;
                theta_per_day = fl_scale CALENDAR_DAYS_PER_YEAR (fl_scale h theta)
            in returns theta_per_day))))))"

definition NumericalGreeksCalculator_vega ::
  "'g numlib \<Rightarrow> PricingModel \<Rightarrow> real \<Rightarrow> (npfloat, 'g) comp" where
  "NumericalGreeksCalculator_vega lib model h =
     (let original_vol = volatility (model_option model)
      in bind (lift (Option_init ((model_option model)\<lparr>volatility := original_vol + h\<rparr>))) (\<lambda>option_up.
         bind (lift (Option_init ((model_option model)\<lparr>volatility := original_vol - h\<rparr>))) (\<lambda>option_down.
         bind (lift (rebuild model option_up)) (\<lambda>model_up.
         bind (lift (rebuild model option_down)) (\<lambda>model_down.
         bind (price lib model_up) (\<lambda>price_up.
         bind (price lib model_down) (\<lambda>price_down.
         returns (fl_div (fl_sub price_up price_down) 2))))))))"

definition NumericalGreeksCalculator_rho ::
  "'g numlib \<Rightarrow> PricingModel \<Rightarrow> real \<Rightarrow> (npfloat, 'g) comp" where
  "NumericalGreeksCalculator_rho lib model h =
     (let original_rate = risk_free_rate (model_option model)
      in bind (lift (Option_init ((model_option model)\<lparr>risk_free_rate := original_rate + h\<rparr>))) (\<lambda>option_up.
         bind (lift (Option_init ((model_option model)\<lparr>risk_free_rate := original_rate - h\<rparr>))) (\<lambda>option_down.
         bind (lift (rebuild model option_up)) (\<lambda>model_up.
         bind (lift (rebuild model option_down)) (\<lambda>model_down.
         bind (price lib model_up) (\<lambda>price_up.
         bind (price lib model_down) (\<lambda>price_down.
         returns (fl_div (fl_sub price_up price_down) 2))))))))"

text \<open>
  \<open>calculate_all_greeks\<close> evaluates the five keyword arguments in the order they are
  written, each with its default step.
\<close>

definition calculate_all_greeks :: "'g numlib \<Rightarrow> PricingModel \<Rightarrow> (Greeks, 'g) comp" where
  "calculate_all_greeks lib model =
     bind (NumericalGreeksCalculator_delta lib model (1 / 100)) (\<lambda>de.
     bind (NumericalGreeksCalculator_gamma lib model (1 / 100)) (\<lambda>ga.
     bind (NumericalGreeksCalculator_theta lib model (1 / 365)) (\<lambda>th.
     bind (NumericalGreeksCalculator_vega lib model (1 / 100)) (\<lambda>ve.
     bind (NumericalGreeksCalculator_rho lib model (1 / 100)) (\<lambda>rh.
     returns \<lparr> delta = de, gamma = ga, theta = th, vega = ve, rho = rh \<rparr>)))))"

text \<open>
  \<open>greeks()\<close> of an engine: the closed forms for Black-Scholes, the calculator for the
  lattice and the simulation.
\<close>

definition greeks :: "'g numlib \<Rightarrow> PricingModel \<Rightarrow> (Greeks, 'g) comp" where
  "greeks lib m =
     (case m of
        BlackScholesModel opt \<Rightarrow> returns (BlackScholesModel_greeks (norm_cdf lib) (norm_pdf lib) opt)
      | _ \<Rightarrow> calculate_all_greeks lib m)"

section \<open>volatility/implied.py\<close>

text \<open>
  The solver prices with a new Black-Scholes engine in every iteration. Each function
  returns, beside its result, the number of prices computed so far, so that a failure
  before the first iteration can be told from a failure after some.
\<close>

definition calculate_intrinsic_value ::
  "real \<Rightarrow> real \<Rightarrow> real \<Rightarrow> real \<Rightarrow> OptionType \<Rightarrow> real \<Rightarrow> real" where
  "calculate_intrinsic_value spot strike time rate otype div_yield =
     (if otype = CALL
      then max (spot * exp (- div_yield * time) - strike * exp (- rate * time)) 0
      else max (strike * exp (- rate * time) - spot * exp (- div_yield * time)) 0)"

definition trial_option ::
  "real \<Rightarrow> real \<Rightarrow> real \<Rightarrow> real \<Rightarrow> OptionType \<Rightarrow> real \<Rightarrow> real \<Rightarrow> error + PricingModel" where
  "trial_option spot strike time rate otype div_yield vol =
     (case Option_init \<lparr> spot_price = spot, strike_price = strike, time_to_expiry = time,
                         volatility = vol, risk_free_rate = rate, option_type = otype,
                         exercise_style = EUROPEAN, dividend_yield = div_yield \<rparr> of
        Inl e \<Rightarrow> Inl e
      | Inr option \<Rightarrow> BlackScholesModel_init option)"

fun newton_raphson_loop ::
  "(real \<Rightarrow> real) \<Rightarrow> (real \<Rightarrow> real) \<Rightarrow> real \<Rightarrow> real \<Rightarrow> real \<Rightarrow> real \<Rightarrow> real \<Rightarrow> OptionType \<Rightarrow> real \<Rightarrow> real
     \<Rightarrow> nat \<Rightarrow> real \<Rightarrow> nat \<Rightarrow> (error + real) \<times> nat" where
  "newton_raphson_loop cdf pdf spot strike time rate target_price otype div_yield tolerance 0 vol cnt =
     (Inl (ImpliedVolatilityError NewtonNotConverged), cnt)"
| "newton_raphson_loop cdf pdf spot strike time rate target_price otype div_yield tolerance (Suc k) vol cnt =
     (case trial_option spot strike time rate otype div_yield vol of
        Inl e \<Rightarrow> (Inl e, cnt)
      | Inr model \<Rightarrow>
          (let price_v = BlackScholesModel_price cdf (model_option model);
               vega_v = BlackScholesModel_vega pdf (model_option model);
               price_diff = price_v - target_price
           in if \<bar>price_diff\<bar> < tolerance then (Inr vol, Suc cnt)
              else if \<bar>vega_v\<bar> < 1 / 10 ^ 10
              then (Inl (ImpliedVolatilityError VegaTooSmall), Suc cnt)
              else newton_raphson_loop cdf pdf spot strike time rate target_price otype div_yield
                     tolerance k
                     (max IV_MIN_VALUE (min IV_MAX_VALUE (vol - price_diff / (vega_v * 100))))
                     (Suc cnt)))"

definition newton_raphson ::
  "(real \<Rightarrow> real) \<Rightarrow> (real \<Rightarrow> real) \<Rightarrow> real \<Rightarrow> real \<Rightarrow> real \<Rightarrow> real \<Rightarrow> real \<Rightarrow> OptionType \<Rightarrow> real \<Rightarrow> real \<Rightarrow> real
     \<Rightarrow> int \<Rightarrow> nat \<Rightarrow> (error + real) \<times> nat" where
  "newton_raphson cdf pdf spot strike time rate target_price otype div_yield initial_vol tolerance
     max_iter cnt =
     newton_raphson_loop cdf pdf spot strike time rate target_price otype div_yield tolerance
       (nat max_iter) initial_vol cnt"

fun bisection_loop ::
  "(real \<Rightarrow> real) \<Rightarrow> real \<Rightarrow> real \<Rightarrow> real \<Rightarrow> real \<Rightarrow> real \<Rightarrow> OptionType \<Rightarrow> real \<Rightarrow> real
     \<Rightarrow> nat \<Rightarrow> real \<Rightarrow> real \<Rightarrow> nat \<Rightarrow> (error + real) \<times> nat" where
  "bisection_loop cdf spot strike time rate target_price otype div_yield tolerance 0
     vol_low vol_high cnt =
     (Inl (ImpliedVolatilityError BisectionNotConverged), cnt)"
| "bisection_loop cdf spot strike time rate target_price otype div_yield tolerance (Suc k)
     vol_low vol_high cnt =
     (let vol_mid = (vol_low + vol_high) / 2
      in case trial_option spot strike time rate otype div_yield vol_mid of
           Inl e \<Rightarrow> (Inl e, cnt)
         | Inr model \<Rightarrow>
             (let price_mid = BlackScholesModel_price cdf (model_option model)
              in if \<bar>price_mid - target_price\<bar> < tolerance then (Inr vol_mid, Suc cnt)
                 else (let vol_low1 = (if price_mid < target_price then vol_mid else vol_low);
                           vol_high1 = (if price_mid < target_price then vol_high else vol_mid)
                       in if vol_high1 - vol_low1 < tolerance then (Inr vol_mid, Suc cnt)
                          else bisection_loop cdf spot strike time rate target_price otype
                                 div_yield tolerance k vol_low1 vol_high1 (Suc cnt))))"

definition bisection_method ::
  "(real \<Rightarrow> real) \<Rightarrow> real \<Rightarrow> real \<Rightarrow> real \<Rightarrow> real \<Rightarrow> real \<Rightarrow> OptionType \<Rightarrow> real \<Rightarrow> real
     \<Rightarrow> int \<Rightarrow> nat \<Rightarrow> (error + real) \<times> nat" where
  "bisection_method cdf spot strike time rate target_price otype div_yield tolerance max_iter cnt =
     bisection_loop cdf spot strike time rate target_price otype div_yield tolerance
       (nat max_iter) IV_MIN_VALUE IV_MAX_VALUE cnt"

text \<open>
  \<open>except ImpliedVolatilityError\<close> catches the failures of Newton-Raphson and nothing
  else: the error of a contract that does not validate passes through.
\<close>

definition implied_volatility ::
  "(real \<Rightarrow> real) \<Rightarrow> (real \<Rightarrow> real) \<Rightarrow> real \<Rightarrow> real \<Rightarrow> real \<Rightarrow> real \<Rightarrow> real \<Rightarrow> OptionType \<Rightarrow> real \<Rightarrow> real \<Rightarrow> real
     \<Rightarrow> int \<Rightarrow> (error + real) \<times> nat" where
  "implied_volatility cdf pdf spot_p strike_p time rate market_price otype div_yield initial_guess
     tolerance max_iterations =
     (let intrinsic_value = calculate_intrinsic_value spot_p strike_p time rate otype div_yield
      in if market_price < intrinsic_value
         then (Inl (ImpliedVolatilityError BelowIntrinsic), 0)
         else if market_price \<le> 0
         then (Inl (ImpliedVolatilityError PriceNotPositive), 0)
         else if market_price - intrinsic_value < 1 / 100
         then bisection_method cdf spot_p strike_p time rate market_price otype div_yield
                tolerance max_iterations 0
         else (case newton_raphson cdf pdf spot_p strike_p time rate market_price otype div_yield
                      initial_guess tolerance max_iterations 0 of
                 (Inl (ImpliedVolatilityError f), cnt) \<Rightarrow>
                   bisection_method cdf spot_p strike_p time rate market_price otype div_yield
                     tolerance max_iterations cnt
               | res \<Rightarrow> res))"

section \<open>tests/conftest.py\<close>

text \<open>The keyword arguments of three fixtures of the test suite.\<close>

definition simple_call_option :: Option where
  "simple_call_option =
     \<lparr> spot_price = 100, strike_price = 100, time_to_expiry = 1, volatility = 1 / 5,
       risk_free_rate = 1 / 20, option_type = CALL, exercise_style = EUROPEAN,
       dividend_yield = 0 \<rparr>"

definition american_put_option :: Option where
  "american_put_option =
     \<lparr> spot_price = 90, strike_price = 100, time_to_expiry = 1, volatility = 3 / 10,
       risk_free_rate = 1 / 20, option_type = PUT, exercise_style = AMERICAN,
       dividend_yield = 0 \<rparr>"

definition dividend_paying_option :: Option where
  "dividend_paying_option =
     \<lparr> spot_price = 100, strike_price = 100, time_to_expiry = 1, volatility = 1 / 5,
       risk_free_rate = 1 / 20, option_type = CALL, exercise_style = EUROPEAN,
       dividend_yield = 3 / 100 \<rparr>"

section \<open>An instance of the library parameters\<close>

text \<open>
  The theorems below hold for every library that has the properties they assume. To
  apply them at concrete inputs the parameters are instantiated with the distribution
  function and the quantile function of the logistic distribution, with the Gaussian
  density on the reals, and with a generator whose state is a counter and whose draws
  run through -2, -1, 0, 1, 2.
\<close>

definition logistic_cdf :: "real \<Rightarrow> real" where
  "logistic_cdf x = 1 / (1 + exp (- x))"

text \<open>The density as the comment in \<open>gamma\<close> writes it: \<open>(1/\<surd>(2\<pi>)) * e^(-x\<^sup>2/2)\<close>.\<close>

definition gaussian_pdf :: "real \<Rightarrow> real" where
  "gaussian_pdf x = exp (- (x ^ 2) / 2) / SQRT_2PI"

definition logistic_ppf :: "real \<Rightarrow> real" where
  "logistic_ppf p = ln (p / (1 - p))"

definition cycle_draw :: "nat \<Rightarrow> real \<times> nat" where
  "cycle_draw g = (real (g mod 5) - 2, Suc g)"

definition sample_lib :: "nat numlib" where
  "sample_lib =
     \<lparr> norm_cdf = logistic_cdf, norm_pdf = gaussian_pdf, norm_ppf = logistic_ppf,
       seed_state = nat, draw_normal = cycle_draw \<rparr>"

text \<open>
  A distribution function and a density that behave in the tails as \<open>norm.cdf\<close> and
  \<open>norm.pdf\<close> do on doubles: beyond 39 standard deviations the distance of the normal
  distribution function from 1 (above) or from 0 (below) is smaller than any positive
  double can express, so the computed value is exactly \<open>1.0\<close> or \<open>0.0\<close>, and
  \<open>exp(-x**2/2)\<close> with \<open>x**2/2\<close> of 746 or more is rounded to \<open>0.0\<close>.
\<close>

definition saturating_cdf :: "real \<Rightarrow> real" where
  "saturating_cdf x = (if 39 \<le> x then 1 else if x \<le> - 39 then 0 else logistic_cdf x)"

definition underflowing_pdf :: "real \<Rightarrow> real" where
  "underflowing_pdf x = (if 746 \<le> x ^ 2 / 2 then 0 else gaussian_pdf x)"

section \<open>Contract validation and engine construction\<close>

lemma Option_init_Inr_iff:
  "Option_init kw = Inr opt \<longleftrightarrow>
     opt = kw \<and> 0 < spot_price kw \<and> 0 < strike_price kw \<and> 0 < time_to_expiry kw
       \<and> 0 < volatility kw \<and> 0 \<le> dividend_yield kw"
  by (auto simp: Option_init_def field_errors_def split: if_splits)

lemma BlackScholesModel_init_Inr_iff:
  "BlackScholesModel_init opt = Inr m \<longleftrightarrow>
     m = BlackScholesModel opt \<and> exercise_style opt = EUROPEAN"
  by (auto simp: BlackScholesModel_init_def)

text \<open>
  C9, as the code has it. A contract with \<open>time_to_expiry = 0\<close> is refused with a validation error that
  names the field; a contract is accepted exactly when spot, strike, time and volatility
  are positive and the dividend yield is not negative, and is refused with a validation
  error that names the offending fields otherwise, so the constructor never returns a
  contract with an invalid field; and the Black-Scholes constructor refuses an American
  contract with \<open>InvalidOptionError\<close>. The check runs in the constructor only: a field
  assigned afterwards is not validated, so an \<open>Option\<close> object with an invalid field
  can exist.
\<close>

theorem option_validation:
  "(time_to_expiry kw = 0 \<longrightarrow>
      Option_init kw = Inl (PydanticValidationError (field_errors kw))
      \<and> ''time_to_expiry'' \<in> set (field_errors kw))
   \<and> ((\<exists>opt. Option_init kw = Inr opt) \<longleftrightarrow>
        0 < spot_price kw \<and> 0 < strike_price kw \<and> 0 < time_to_expiry kw
        \<and> 0 < volatility kw \<and> 0 \<le> dividend_yield kw)
   \<and> ((\<exists>opt. Option_init kw = Inr opt)
        \<or> Option_init kw = Inl (PydanticValidationError (field_errors kw))
          \<and> field_errors kw \<noteq> [])
   \<and> (exercise_style kw = AMERICAN \<longrightarrow> BlackScholesModel_init kw = Inl InvalidOptionError)"
  by (auto simp: Option_init_def field_errors_def BlackScholesModel_init_def split: if_splits)

theorem option_validation_witness:
  "Option_init (american_put_option\<lparr>time_to_expiry := 0\<rparr>)
     = Inl (PydanticValidationError [''time_to_expiry''])
   \<and> (\<exists>opt. Option_init american_put_option = Inr opt)
   \<and> BlackScholesModel_init american_put_option = Inl InvalidOptionError"
  using option_validation [of "american_put_option\<lparr>time_to_expiry := 0\<rparr>"]
    option_validation [of american_put_option]
  by (simp add: field_errors_def american_put_option_def)

text \<open>
  The fixture \<open>simple_call_option\<close> validates; after \<open>option.time_to_expiry = 0.0\<close> the
  same object holds a time to expiry that the constructor would refuse.
\<close>

theorem assignment_not_validated:
  "Option_init simple_call_option = Inr simple_call_option
   \<and> time_to_expiry (Option_setattr_time_to_expiry simple_call_option 0) = 0
   \<and> Option_init (Option_setattr_time_to_expiry simple_call_option 0)
       = Inl (PydanticValidationError [''time_to_expiry''])"
  by (simp add: Option_init_def field_errors_def Option_setattr_time_to_expiry_def
      simple_call_option_def)

section \<open>Black-Scholes: the signs of the Greeks\<close>

lemma logistic_cdf_bounds: "0 < logistic_cdf x \<and> logistic_cdf x < 1"
proof -
  have "0 < exp (- x)" by simp
  then show ?thesis
    by (simp add: logistic_cdf_def add_pos_pos)
qed

lemma saturating_cdf_bounds: "0 \<le> saturating_cdf x \<and> saturating_cdf x \<le> 1"
  using logistic_cdf_bounds [of x] by (simp add: saturating_cdf_def)

lemma gaussian_pdf_pos: "0 < gaussian_pdf x"
  by (simp add: gaussian_pdf_def SQRT_2PI_def)

lemma underflowing_pdf_nonneg: "0 \<le> underflowing_pdf x"
  using gaussian_pdf_pos [of x] by (simp add: underflowing_pdf_def)

lemma calculate_d1_d2_option_type [simp]:
  "calculate_d1_d2 (kw\<lparr>option_type := t\<rparr>) = calculate_d1_d2 kw"
  by (simp add: calculate_d1_d2_def)

lemma bs_delta_call:
  assumes "0 \<le> cdf (fst (calculate_d1_d2 kw))" "cdf (fst (calculate_d1_d2 kw)) \<le> 1"
    and "0 < time_to_expiry kw" "0 \<le> dividend_yield kw"
  shows "0 \<le> BlackScholesModel_delta cdf (kw\<lparr>option_type := CALL\<rparr>)
       \<and> BlackScholesModel_delta cdf (kw\<lparr>option_type := CALL\<rparr>) \<le> 1"
proof -
  obtain d1 d2 where d: "calculate_d1_d2 kw = (d1, d2)"
    by (cases "calculate_d1_d2 kw")
  have e: "exp (- dividend_yield kw * time_to_expiry kw) \<le> 1"
    using assms(3,4) by simp
  have e0: "0 \<le> exp (- dividend_yield kw * time_to_expiry kw)" by simp
  have c: "0 \<le> cdf d1" "cdf d1 \<le> 1" using assms(1,2) d by simp_all
  have u: "exp (- dividend_yield kw * time_to_expiry kw) * cdf d1 \<le> 1 * 1"
    using e e0 c by (intro mult_mono) simp_all
  have l: "0 \<le> exp (- dividend_yield kw * time_to_expiry kw) * cdf d1"
    using e0 c(1) by (rule mult_nonneg_nonneg)
  show ?thesis
    using u l by (simp add: BlackScholesModel_delta_def d)
qed

lemma bs_delta_put:
  assumes "0 \<le> cdf (- fst (calculate_d1_d2 kw))" "cdf (- fst (calculate_d1_d2 kw)) \<le> 1"
    and "0 < time_to_expiry kw" "0 \<le> dividend_yield kw"
  shows "- 1 \<le> BlackScholesModel_delta cdf (kw\<lparr>option_type := PUT\<rparr>)
       \<and> BlackScholesModel_delta cdf (kw\<lparr>option_type := PUT\<rparr>) \<le> 0"
proof -
  obtain d1 d2 where d: "calculate_d1_d2 kw = (d1, d2)"
    by (cases "calculate_d1_d2 kw")
  have e: "exp (- dividend_yield kw * time_to_expiry kw) \<le> 1"
    using assms(3,4) by simp
  have e0: "0 \<le> exp (- dividend_yield kw * time_to_expiry kw)" by simp
  have c: "0 \<le> cdf (- d1)" "cdf (- d1) \<le> 1" using assms(1,2) d by simp_all
  have u: "exp (- dividend_yield kw * time_to_expiry kw) * cdf (- d1) \<le> 1 * 1"
    using e e0 c by (intro mult_mono) simp_all
  have l: "0 \<le> exp (- dividend_yield kw * time_to_expiry kw) * cdf (- d1)"
    using e0 c(1) by (rule mult_nonneg_nonneg)
  show ?thesis
    using u l by (simp add: BlackScholesModel_delta_def d)
qed

lemma bs_gamma_nonneg:
  assumes "0 \<le> pdf (fst (calculate_d1_d2 kw))"
    and "0 < spot_price kw" "0 < time_to_expiry kw" "0 < volatility kw"
  shows "0 \<le> BlackScholesModel_gamma pdf kw"
proof -
  obtain d1 d2 where d: "calculate_d1_d2 kw = (d1, d2)"
    by (cases "calculate_d1_d2 kw")
  show ?thesis using assms d
    by (simp add: BlackScholesModel_gamma_def Let_def)
qed

lemma bs_gamma_type:
  "BlackScholesModel_gamma pdf (kw\<lparr>option_type := t\<rparr>) = BlackScholesModel_gamma pdf kw"
  by (simp add: BlackScholesModel_gamma_def)

lemma bs_vega_nonneg:
  assumes "0 \<le> pdf (fst (calculate_d1_d2 kw))"
    and "0 < spot_price kw" "0 < time_to_expiry kw"
  shows "0 \<le> BlackScholesModel_vega pdf kw"
proof -
  obtain d1 d2 where d: "calculate_d1_d2 kw = (d1, d2)"
    by (cases "calculate_d1_d2 kw")
  show ?thesis using assms d
    by (simp add: BlackScholesModel_vega_def Let_def)
qed

lemma bs_vega_type:
  "BlackScholesModel_vega pdf (kw\<lparr>option_type := t\<rparr>) = BlackScholesModel_vega pdf kw"
  by (simp add: BlackScholesModel_vega_def)

lemma bs_rho_call:
  assumes "0 \<le> cdf (snd (calculate_d1_d2 kw))" "0 < strike_price kw" "0 < time_to_expiry kw"
  shows "0 \<le> BlackScholesModel_rho cdf (kw\<lparr>option_type := CALL\<rparr>)"
proof -
  obtain d1 d2 where d: "calculate_d1_d2 kw = (d1, d2)"
    by (cases "calculate_d1_d2 kw")
  show ?thesis using assms by (simp add: BlackScholesModel_rho_def d Let_def)
qed

lemma bs_rho_put:
  assumes "0 \<le> cdf (- snd (calculate_d1_d2 kw))" "0 < strike_price kw" "0 < time_to_expiry kw"
  shows "BlackScholesModel_rho cdf (kw\<lparr>option_type := PUT\<rparr>) \<le> 0"
proof -
  obtain d1 d2 where d: "calculate_d1_d2 kw = (d1, d2)"
    by (cases "calculate_d1_d2 kw")
  show ?thesis using assms by (simp add: BlackScholesModel_rho_def d Let_def)
qed

text \<open>
  C8, as the code has it. The signs of the analytical Greeks. For every distribution function with values
  from 0 to 1 and every density without negative values, which is all that \<open>norm.cdf\<close>
  and \<open>norm.pdf\<close> guarantee on doubles, and every pair of validated European contracts
  that differ in the option type only: the call delta lies in \<open>[0, 1]\<close> and the put
  delta in \<open>[-1, 0]\<close>; gamma is not negative and the same for call and put; vega is not
  negative and the same for call and put; the call rho is not negative and the put rho
  not positive.
\<close>

theorem greeks_sign_invariants:
  assumes cdf: "\<forall>x. 0 \<le> cdf x \<and> cdf x \<le> 1"
    and pdf: "\<forall>x. 0 \<le> pdf x"
    and "Option_init (kw\<lparr>option_type := CALL\<rparr>) = Inr c"
    and "Option_init (kw\<lparr>option_type := PUT\<rparr>) = Inr p"
    and "BlackScholesModel_init c = Inr mc"
    and "BlackScholesModel_init p = Inr mp"
  shows "0 \<le> BlackScholesModel_delta cdf (model_option mc)
       \<and> BlackScholesModel_delta cdf (model_option mc) \<le> 1
       \<and> - 1 \<le> BlackScholesModel_delta cdf (model_option mp)
       \<and> BlackScholesModel_delta cdf (model_option mp) \<le> 0
       \<and> 0 \<le> BlackScholesModel_gamma pdf (model_option mc)
       \<and> 0 \<le> BlackScholesModel_gamma pdf (model_option mp)
       \<and> BlackScholesModel_gamma pdf (model_option mc)
           = BlackScholesModel_gamma pdf (model_option mp)
       \<and> 0 \<le> BlackScholesModel_vega pdf (model_option mc)
       \<and> 0 \<le> BlackScholesModel_vega pdf (model_option mp)
       \<and> BlackScholesModel_vega pdf (model_option mc)
           = BlackScholesModel_vega pdf (model_option mp)
       \<and> 0 \<le> BlackScholesModel_rho cdf (model_option mc)
       \<and> BlackScholesModel_rho cdf (model_option mp) \<le> 0"
proof -
  have c: "c = kw\<lparr>option_type := CALL\<rparr>" and p: "p = kw\<lparr>option_type := PUT\<rparr>"
    and v: "0 < spot_price kw" "0 < strike_price kw" "0 < time_to_expiry kw"
       "0 < volatility kw" "0 \<le> dividend_yield kw"
    using assms(3,4) by (simp_all add: Option_init_Inr_iff)
  have mc: "model_option mc = kw\<lparr>option_type := CALL\<rparr>"
    and mp: "model_option mp = kw\<lparr>option_type := PUT\<rparr>"
    using assms(5,6) c p by (auto simp: BlackScholesModel_init_Inr_iff)
  have b: "\<And>x. 0 \<le> cdf x" "\<And>x. cdf x \<le> 1" "\<And>x. 0 \<le> pdf x"
    using cdf pdf by simp_all
  show ?thesis
    unfolding mc mp
    using bs_delta_call [of cdf kw] bs_delta_put [of cdf kw] bs_gamma_nonneg [of pdf kw]
      bs_vega_nonneg [of pdf kw] bs_rho_call [of cdf kw] bs_rho_put [of cdf kw] b v
    by (simp add: bs_gamma_type bs_vega_type)
qed

theorem greeks_sign_invariants_witness:
  "0 \<le> BlackScholesModel_delta saturating_cdf (simple_call_option\<lparr>option_type := CALL\<rparr>)
   \<and> BlackScholesModel_delta saturating_cdf (simple_call_option\<lparr>option_type := CALL\<rparr>) \<le> 1
   \<and> - 1 \<le> BlackScholesModel_delta saturating_cdf (simple_call_option\<lparr>option_type := PUT\<rparr>)
   \<and> BlackScholesModel_delta saturating_cdf (simple_call_option\<lparr>option_type := PUT\<rparr>) \<le> 0
   \<and> 0 \<le> BlackScholesModel_gamma underflowing_pdf (simple_call_option\<lparr>option_type := CALL\<rparr>)
   \<and> BlackScholesModel_gamma underflowing_pdf (simple_call_option\<lparr>option_type := CALL\<rparr>)
       = BlackScholesModel_gamma underflowing_pdf (simple_call_option\<lparr>option_type := PUT\<rparr>)
   \<and> 0 \<le> BlackScholesModel_vega underflowing_pdf (simple_call_option\<lparr>option_type := CALL\<rparr>)
   \<and> BlackScholesModel_vega underflowing_pdf (simple_call_option\<lparr>option_type := CALL\<rparr>)
       = BlackScholesModel_vega underflowing_pdf (simple_call_option\<lparr>option_type := PUT\<rparr>)
   \<and> 0 \<le> BlackScholesModel_rho saturating_cdf (simple_call_option\<lparr>option_type := CALL\<rparr>)
   \<and> BlackScholesModel_rho saturating_cdf (simple_call_option\<lparr>option_type := PUT\<rparr>) \<le> 0"
proof -
  have v: "Option_init (simple_call_option\<lparr>option_type := CALL\<rparr>)
             = Inr (simple_call_option\<lparr>option_type := CALL\<rparr>)"
    "Option_init (simple_call_option\<lparr>option_type := PUT\<rparr>)
             = Inr (simple_call_option\<lparr>option_type := PUT\<rparr>)"
    by (simp_all add: Option_init_def field_errors_def simple_call_option_def)
  have m: "BlackScholesModel_init (simple_call_option\<lparr>option_type := CALL\<rparr>)
             = Inr (BlackScholesModel (simple_call_option\<lparr>option_type := CALL\<rparr>))"
    "BlackScholesModel_init (simple_call_option\<lparr>option_type := PUT\<rparr>)
             = Inr (BlackScholesModel (simple_call_option\<lparr>option_type := PUT\<rparr>))"
    by (simp_all add: BlackScholesModel_init_def simple_call_option_def)
  have b: "\<forall>x. 0 \<le> saturating_cdf x \<and> saturating_cdf x \<le> 1"
    using saturating_cdf_bounds by blast
  have b': "\<forall>x. 0 \<le> underflowing_pdf x"
    using underflowing_pdf_nonneg by blast
  show ?thesis
    using greeks_sign_invariants [OF b b' v m] by simp
qed

text \<open>
  The fixture with a volatility of 0.01 and a rate of 0.4 has \<open>d1 = 40.005\<close> and
  \<open>d2 = 39.995\<close>; with a rate of -0.4 it has \<open>d1 = -39.995\<close> and \<open>d2 = -40.005\<close>. Both
  contracts validate. In the tails the distribution function is exactly 1 or 0 and the
  density exactly 0, and the Greeks sit on the borders of their ranges.
\<close>

lemma d1_d2_high_rate:
  "calculate_d1_d2 (simple_call_option\<lparr>volatility := 1 / 100, risk_free_rate := 2 / 5\<rparr>)
     = (8001 / 200, 7999 / 200)"
  by (simp add: calculate_d1_d2_def simple_call_option_def Let_def power2_eq_square)

lemma d1_d2_low_rate:
  "calculate_d1_d2 (simple_call_option\<lparr>volatility := 1 / 100, risk_free_rate := - (2 / 5)\<rparr>)
     = (- (7999 / 200), - (8001 / 200))"
  by (simp add: calculate_d1_d2_def simple_call_option_def Let_def power2_eq_square)

theorem greeks_saturation_counterexample:
  "Option_init (simple_call_option\<lparr>volatility := 1 / 100, risk_free_rate := 2 / 5\<rparr>)
     = Inr (simple_call_option\<lparr>volatility := 1 / 100, risk_free_rate := 2 / 5\<rparr>)
   \<and> Option_init (simple_call_option\<lparr>volatility := 1 / 100, risk_free_rate := - (2 / 5)\<rparr>)
     = Inr (simple_call_option\<lparr>volatility := 1 / 100, risk_free_rate := - (2 / 5)\<rparr>)
   \<and> BlackScholesModel_delta saturating_cdf
        (simple_call_option\<lparr>volatility := 1 / 100, risk_free_rate := 2 / 5,
           option_type := CALL\<rparr>) = 1
   \<and> BlackScholesModel_delta saturating_cdf
        (simple_call_option\<lparr>volatility := 1 / 100, risk_free_rate := 2 / 5,
           option_type := PUT\<rparr>) = 0
   \<and> BlackScholesModel_gamma underflowing_pdf
        (simple_call_option\<lparr>volatility := 1 / 100, risk_free_rate := 2 / 5\<rparr>) = 0
   \<and> BlackScholesModel_vega underflowing_pdf
        (simple_call_option\<lparr>volatility := 1 / 100, risk_free_rate := 2 / 5\<rparr>) = 0
   \<and> BlackScholesModel_rho saturating_cdf
        (simple_call_option\<lparr>volatility := 1 / 100, risk_free_rate := 2 / 5,
           option_type := PUT\<rparr>) = 0
   \<and> BlackScholesModel_rho saturating_cdf
        (simple_call_option\<lparr>volatility := 1 / 100, risk_free_rate := - (2 / 5),
           option_type := CALL\<rparr>) = 0"
proof -
  have q: "dividend_yield simple_call_option = 0" "time_to_expiry simple_call_option = 1"
    by (simp_all add: simple_call_option_def)
  have a: "BlackScholesModel_delta saturating_cdf
        (simple_call_option\<lparr>volatility := 1 / 100, risk_free_rate := 2 / 5,
           option_type := CALL\<rparr>) = 1"
    by (simp add: BlackScholesModel_delta_def d1_d2_high_rate saturating_cdf_def q)
  have b: "BlackScholesModel_delta saturating_cdf
        (simple_call_option\<lparr>volatility := 1 / 100, risk_free_rate := 2 / 5,
           option_type := PUT\<rparr>) = 0"
    by (simp add: BlackScholesModel_delta_def d1_d2_high_rate saturating_cdf_def q)
  have u: "underflowing_pdf (8001 / 200) = 0"
    by (simp add: underflowing_pdf_def power2_eq_square)
  have c: "BlackScholesModel_gamma underflowing_pdf
        (simple_call_option\<lparr>volatility := 1 / 100, risk_free_rate := 2 / 5\<rparr>) = 0"
    by (simp add: BlackScholesModel_gamma_def d1_d2_high_rate u Let_def)
  have d: "BlackScholesModel_vega underflowing_pdf
        (simple_call_option\<lparr>volatility := 1 / 100, risk_free_rate := 2 / 5\<rparr>) = 0"
    by (simp add: BlackScholesModel_vega_def d1_d2_high_rate u Let_def)
  have e: "BlackScholesModel_rho saturating_cdf
        (simple_call_option\<lparr>volatility := 1 / 100, risk_free_rate := 2 / 5,
           option_type := PUT\<rparr>) = 0"
    by (simp add: BlackScholesModel_rho_def d1_d2_high_rate saturating_cdf_def Let_def)
  have f: "BlackScholesModel_rho saturating_cdf
        (simple_call_option\<lparr>volatility := 1 / 100, risk_free_rate := - (2 / 5),
           option_type := CALL\<rparr>) = 0"
    by (simp add: BlackScholesModel_rho_def d1_d2_low_rate saturating_cdf_def Let_def)
  have v: "Option_init (simple_call_option\<lparr>volatility := 1 / 100, risk_free_rate := 2 / 5\<rparr>)
     = Inr (simple_call_option\<lparr>volatility := 1 / 100, risk_free_rate := 2 / 5\<rparr>)"
    "Option_init (simple_call_option\<lparr>volatility := 1 / 100, risk_free_rate := - (2 / 5)\<rparr>)
     = Inr (simple_call_option\<lparr>volatility := 1 / 100, risk_free_rate := - (2 / 5)\<rparr>)"
    by (simp_all add: Option_init_def field_errors_def simple_call_option_def)
  show ?thesis
    using a b c d e f v by simp
qed

text \<open>
  Put-call parity. With a distribution function that is symmetric, \<open>N(-x) = 1 - N(x)\<close>,
  the formulas of \<open>price\<close> for a call and a put on the same contract differ by
  \<open>S * e^(-q*T) - K * e^(-r*T)\<close> when they are evaluated on the reals. How far the two
  computed doubles are from that difference depends on the rounding of every operation
  and on the size of the operands, which the embedding does not represent.
\<close>

lemma parity_exact:
  assumes sym: "\<forall>x. cdf (- x) = 1 - cdf x"
  shows "BlackScholesModel_price cdf (kw\<lparr>option_type := CALL\<rparr>)
         - BlackScholesModel_price cdf (kw\<lparr>option_type := PUT\<rparr>)
         = spot_price kw * exp (- dividend_yield kw * time_to_expiry kw)
           - strike_price kw * exp (- risk_free_rate kw * time_to_expiry kw)"
proof -
  obtain d1 d2 where d: "calculate_d1_d2 kw = (d1, d2)"
    by (cases "calculate_d1_d2 kw")
  define a where "a = spot_price kw * exp (- dividend_yield kw * time_to_expiry kw)"
  define b where "b = strike_price kw * exp (- risk_free_rate kw * time_to_expiry kw)"
  have m1: "cdf (- d1) = 1 - cdf d1" and m2: "cdf (- d2) = 1 - cdf d2"
    using sym by blast+
  have c: "BlackScholesModel_price cdf (kw\<lparr>option_type := CALL\<rparr>) = a * cdf d1 - b * cdf d2"
    by (simp add: BlackScholesModel_price_def d a_def b_def Let_def)
  have p: "BlackScholesModel_price cdf (kw\<lparr>option_type := PUT\<rparr>)
             = b * (1 - cdf d2) - a * (1 - cdf d1)"
    by (simp add: BlackScholesModel_price_def d a_def b_def m1 m2 Let_def)
  have "a * cdf d1 - b * cdf d2 - (b * (1 - cdf d2) - a * (1 - cdf d1)) = a - b"
    by (simp add: right_diff_distrib)
  then show ?thesis
    unfolding c p a_def b_def .
qed

section \<open>The numerical Greeks calculator on a low volatility\<close>

lemma vega_low_volatility:
  assumes "Option_init (model_option model) = Inr (model_option model)"
    and "volatility (model_option model) \<le> 1 / 100"
  shows "NumericalGreeksCalculator_vega lib model (1 / 100) g
           = (Inl (PydanticValidationError [''volatility'']), g)"
proof -
  let ?o = "model_option model"
  have v: "0 < spot_price ?o" "0 < strike_price ?o" "0 < time_to_expiry ?o"
    "0 < volatility ?o" "0 \<le> dividend_yield ?o"
    using assms(1) by (simp_all add: Option_init_Inr_iff)
  have up: "Option_init (?o\<lparr>volatility := volatility ?o + 1 / 100\<rparr>)
              = Inr (?o\<lparr>volatility := volatility ?o + 1 / 100\<rparr>)"
    using v by (simp add: Option_init_Inr_iff)
  have down: "Option_init (?o\<lparr>volatility := volatility ?o - 1 / 100\<rparr>)
              = Inl (PydanticValidationError [''volatility''])"
    using v assms(2) by (simp add: Option_init_def field_errors_def)
  show ?thesis
    by (simp add: NumericalGreeksCalculator_vega_def Let_def bind_def lift_def up down)
qed

lemma all_greeks_low_volatility:
  assumes "Option_init (model_option model) = Inr (model_option model)"
    and "volatility (model_option model) \<le> 1 / 100"
  shows "calculate_all_greeks lib model g =
     (case NumericalGreeksCalculator_delta lib model (1 / 100) g of
        (Inl e, g1) \<Rightarrow> (Inl e, g1)
      | (Inr de, g1) \<Rightarrow>
          (case NumericalGreeksCalculator_gamma lib model (1 / 100) g1 of
             (Inl e, g2) \<Rightarrow> (Inl e, g2)
           | (Inr ga, g2) \<Rightarrow>
               (case NumericalGreeksCalculator_theta lib model (1 / 365) g2 of
                  (Inl e, g3) \<Rightarrow> (Inl e, g3)
                | (Inr th, g3) \<Rightarrow> (Inl (PydanticValidationError [''volatility'']), g3))))"
  by (simp add: calculate_all_greeks_def bind_def vega_low_volatility [OF assms]
      split: prod.splits sum.splits)

lemma all_greeks_never_returns:
  assumes "Option_init (model_option model) = Inr (model_option model)"
    and "volatility (model_option model) \<le> 1 / 100"
  shows "calculate_all_greeks lib model g \<noteq> (Inr gr, g')"
  by (simp add: all_greeks_low_volatility [OF assms] split: prod.splits sum.splits)

lemma Option_init_spot_up:
  assumes "Option_init opt = Inr opt" and "0 \<le> h"
  shows "Option_init (opt\<lparr>spot_price := spot_price opt + spot_price opt * h\<rparr>)
           = Inr (opt\<lparr>spot_price := spot_price opt + spot_price opt * h\<rparr>)"
proof -
  have "0 < spot_price opt" using assms(1) by (simp add: Option_init_Inr_iff)
  then have "0 < spot_price opt + spot_price opt * h"
    using assms(2) by (simp add: add_pos_nonneg)
  then show ?thesis using assms(1) by (simp add: Option_init_Inr_iff)
qed

lemma Option_init_spot_down:
  assumes "Option_init opt = Inr opt" and "h < 1"
  shows "Option_init (opt\<lparr>spot_price := spot_price opt - spot_price opt * h\<rparr>)
           = Inr (opt\<lparr>spot_price := spot_price opt - spot_price opt * h\<rparr>)"
proof -
  have "0 < spot_price opt" using assms(1) by (simp add: Option_init_Inr_iff)
  then have "spot_price opt * h < spot_price opt * 1"
    using assms(2) by (intro mult_strict_left_mono) simp_all
  then have "0 < spot_price opt - spot_price opt * h" by simp
  then show ?thesis using assms(1) by (simp add: Option_init_Inr_iff)
qed

lemma ngc_delta_returns:
  assumes v: "Option_init (model_option m) = Inr (model_option m)"
    and h: "0 \<le> h" "h < 1"
    and rb: "\<And>o'. exercise_style o' = exercise_style (model_option m)
               \<Longrightarrow> \<exists>m'. rebuild m o' = Inr m' \<and> P m'"
    and pr: "\<And>m' g. P m' \<Longrightarrow> \<exists>x g'. price lib m' g = (Inr x, g')"
  shows "\<exists>x g'. NumericalGreeksCalculator_delta lib m h g = (Inr x, g')"
proof -
  let ?o = "model_option m"
  let ?u = "?o\<lparr>spot_price := spot_price ?o + spot_price ?o * h\<rparr>"
  let ?d = "?o\<lparr>spot_price := spot_price ?o - spot_price ?o * h\<rparr>"
  obtain mu where mu: "rebuild m ?u = Inr mu" "P mu" using rb [of ?u] by auto
  obtain md where md: "rebuild m ?d = Inr md" "P md" using rb [of ?d] by auto
  obtain pu g1 where pu: "price lib mu g = (Inr pu, g1)" using pr [OF mu(2)] by blast
  obtain pd g2 where pd: "price lib md g1 = (Inr pd, g2)" using pr [OF md(2)] by blast
  show ?thesis
    by (simp add: NumericalGreeksCalculator_delta_def Let_def bind_def lift_def returns_def
        Option_init_spot_up [OF v h(1)] Option_init_spot_down [OF v h(2)] mu md pu pd)
qed

lemma ngc_gamma_returns:
  assumes v: "Option_init (model_option m) = Inr (model_option m)"
    and h: "0 \<le> h" "h < 1"
    and rb: "\<And>o'. exercise_style o' = exercise_style (model_option m)
               \<Longrightarrow> \<exists>m'. rebuild m o' = Inr m' \<and> P m'"
    and pr: "\<And>m' g. P m' \<Longrightarrow> \<exists>x g'. price lib m' g = (Inr x, g')"
    and m: "P m"
  shows "\<exists>x g'. NumericalGreeksCalculator_gamma lib m h g = (Inr x, g')"
proof -
  let ?o = "model_option m"
  let ?u = "?o\<lparr>spot_price := spot_price ?o + spot_price ?o * h\<rparr>"
  let ?d = "?o\<lparr>spot_price := spot_price ?o - spot_price ?o * h\<rparr>"
  obtain mu where mu: "rebuild m ?u = Inr mu" "P mu" using rb [of ?u] by auto
  obtain md where md: "rebuild m ?d = Inr md" "P md" using rb [of ?d] by auto
  obtain p0 g0 where p0: "price lib m g = (Inr p0, g0)" using pr [OF m] by blast
  obtain pu g1 where pu: "price lib mu g0 = (Inr pu, g1)" using pr [OF mu(2)] by blast
  obtain pd g2 where pd: "price lib md g1 = (Inr pd, g2)" using pr [OF md(2)] by blast
  show ?thesis
    by (simp add: NumericalGreeksCalculator_gamma_def Let_def bind_def lift_def returns_def
        Option_init_spot_up [OF v h(1)] Option_init_spot_down [OF v h(2)] mu md p0 pu pd)
qed

lemma ngc_theta_returns:
  assumes v: "Option_init (model_option m) = Inr (model_option m)"
    and rb: "\<And>o'. exercise_style o' = exercise_style (model_option m)
               \<Longrightarrow> \<exists>m'. rebuild m o' = Inr m' \<and> P m'"
    and pr: "\<And>m' g. P m' \<Longrightarrow> \<exists>x g'. price lib m' g = (Inr x, g')"
    and m: "P m"
  shows "\<exists>x g'. NumericalGreeksCalculator_theta lib m h g = (Inr x, g')"
proof (cases "time_to_expiry (model_option m) \<le> h")
  case True
  obtain p0 g0 where p0: "price lib m g = (Inr p0, g0)" using pr [OF m] by blast
  show ?thesis using True
    by (simp add: NumericalGreeksCalculator_theta_def Let_def bind_def returns_def p0)
next
  case False
  let ?o = "model_option m"
  let ?l = "?o\<lparr>time_to_expiry := time_to_expiry ?o - h\<rparr>"
  have later: "Option_init ?l = Inr ?l"
    using v False by (simp add: Option_init_Inr_iff)
  obtain ml where ml: "rebuild m ?l = Inr ml" "P ml" using rb [of ?l] by auto
  obtain p0 g0 where p0: "price lib m g = (Inr p0, g0)" using pr [OF m] by blast
  obtain pl g1 where pl: "price lib ml g0 = (Inr pl, g1)" using pr [OF ml(2)] by blast
  show ?thesis using False
    by (simp add: NumericalGreeksCalculator_theta_def Let_def bind_def lift_def returns_def
        later ml p0 pl)
qed

lemma ngc_greeks_low_volatility:
  assumes v: "Option_init (model_option m) = Inr (model_option m)"
    and vol: "volatility (model_option m) \<le> 1 / 100"
    and rb: "\<And>o'. exercise_style o' = exercise_style (model_option m)
               \<Longrightarrow> \<exists>m'. rebuild m o' = Inr m' \<and> P m'"
    and pr: "\<And>m' g. P m' \<Longrightarrow> \<exists>x g'. price lib m' g = (Inr x, g')"
    and m: "P m"
  shows "\<exists>g'. calculate_all_greeks lib m g = (Inl (PydanticValidationError [''volatility'']), g')"
proof -
  obtain de g1 where de: "NumericalGreeksCalculator_delta lib m (1 / 100) g = (Inr de, g1)"
    using ngc_delta_returns [where h = "1 / 100" and lib = lib and g = g, OF v _ _ rb pr]
    by auto
  obtain ga g2 where ga: "NumericalGreeksCalculator_gamma lib m (1 / 100) g1 = (Inr ga, g2)"
    using ngc_gamma_returns [where h = "1 / 100" and lib = lib and g = g1, OF v _ _ rb pr m]
    by auto
  obtain th g3 where th: "NumericalGreeksCalculator_theta lib m (1 / 365) g2 = (Inr th, g3)"
    using ngc_theta_returns [where h = "1 / 365" and lib = lib and g = g2, OF v rb pr m]
    by auto
  show ?thesis
    by (simp add: all_greeks_low_volatility [OF v vol] de ga th)
qed

lemma binomial_price_returns:
  assumes "1 \<le> num_steps"
  shows "\<exists>x g'. price lib (BinomialTreeModel opt num_steps) g = (Inr x, g')"
  using assms by (simp add: price_def BinomialTreeModel_price_def returns_def Let_def)

lemma draws_total: "\<exists>zs g'. draws dr n g = (zs, g')"
  by (cases "draws dr n g") simp

lemma monte_carlo_price_returns:
  assumes "0 \<le> num_simulations"
    and "random_seed = None \<or> (\<exists>k. random_seed = Some k \<and> 0 \<le> k \<and> k < 2 ^ 32)"
  shows "\<exists>x g'. price lib (MonteCarloModel opt num_simulations use_antithetic random_seed) g
           = (Inr x, g')"
proof -
  obtain g0 where g0:
    "(case random_seed of None \<Rightarrow> (Inr (), g) | Some s \<Rightarrow> np_random_seed lib s g) = (Inr (), g0)"
    using assms(2) by (auto simp: np_random_seed_def)
  have h: "0 \<le> num_simulations div 2" using assms(1) by simp
  obtain za ga where za: "draws (draw_normal lib) (nat (num_simulations div 2)) g0 = (za, ga)"
    by (cases "draws (draw_normal lib) (nat (num_simulations div 2)) g0")
  obtain zb gb where zb: "draws (draw_normal lib) (nat num_simulations) g0 = (zb, gb)"
    by (cases "draws (draw_normal lib) (nat num_simulations) g0")
  have "\<exists>Z g1. (if use_antithetic
          then (case np_random_standard_normal lib (num_simulations div 2) g0 of
                  (Inl e, g1) \<Rightarrow> (Inl e, g1)
                | (Inr Z, g1) \<Rightarrow> (Inr (Z @ map uminus Z), g1))
          else np_random_standard_normal lib num_simulations g0) = (Inr Z, g1)"
    using assms(1) h by (simp add: np_random_standard_normal_def za zb)
  then obtain Z g1 where Z: "(if use_antithetic
          then (case np_random_standard_normal lib (num_simulations div 2) g0 of
                  (Inl e, g1) \<Rightarrow> (Inl e, g1)
                | (Inr Z, g1) \<Rightarrow> (Inr (Z @ map uminus Z), g1))
          else np_random_standard_normal lib num_simulations g0) = (Inr Z, g1)"
    by blast
  show ?thesis
    by (simp add: price_def MonteCarloModel_price_def generate_price_paths_def g0 Z Let_def)
qed

lemma binomial_greeks_low_volatility:
  assumes v: "Option_init opt = Inr opt" and vol: "volatility opt \<le> 1 / 100"
    and n: "1 \<le> num_steps"
  shows "\<exists>g'. greeks lib (BinomialTreeModel opt num_steps) g
           = (Inl (PydanticValidationError [''volatility'']), g')"
proof -
  have "\<exists>g'. calculate_all_greeks lib (BinomialTreeModel opt num_steps) g
           = (Inl (PydanticValidationError [''volatility'']), g')"
  proof (rule ngc_greeks_low_volatility
      [where P = "\<lambda>m'. \<exists>o'. m' = BinomialTreeModel o' num_steps"])
    show "Option_init (model_option (BinomialTreeModel opt num_steps))
            = Inr (model_option (BinomialTreeModel opt num_steps))"
      using v by simp
    show "volatility (model_option (BinomialTreeModel opt num_steps)) \<le> 1 / 100"
      using vol by simp
    show "\<exists>m'. rebuild (BinomialTreeModel opt num_steps) o' = Inr m'
            \<and> (\<exists>o''. m' = BinomialTreeModel o'' num_steps)" for o'
      by (simp add: rebuild_def BinomialTreeModel_init_def)
    show "\<exists>x g'. price lib m' g = (Inr x, g')"
      if "\<exists>o'. m' = BinomialTreeModel o' num_steps" for m' g
      using that binomial_price_returns [OF n] by auto
    show "\<exists>o'. BinomialTreeModel opt num_steps = BinomialTreeModel o' num_steps"
      by simp
  qed
  then show ?thesis by (simp add: greeks_def)
qed

lemma monte_carlo_greeks_low_volatility:
  assumes v: "Option_init opt = Inr opt" and vol: "volatility opt \<le> 1 / 100"
    and e: "exercise_style opt = EUROPEAN"
    and n: "0 \<le> num_simulations"
    and s: "random_seed = None \<or> (\<exists>k. random_seed = Some k \<and> 0 \<le> k \<and> k < 2 ^ 32)"
  shows "\<exists>g'. greeks lib (MonteCarloModel opt num_simulations use_antithetic random_seed) g
           = (Inl (PydanticValidationError [''volatility'']), g')"
proof -
  let ?m = "MonteCarloModel opt num_simulations use_antithetic random_seed"
  have "\<exists>g'. calculate_all_greeks lib ?m g
           = (Inl (PydanticValidationError [''volatility'']), g')"
  proof (rule ngc_greeks_low_volatility
      [where P = "\<lambda>m'. \<exists>o'. m' = MonteCarloModel o' num_simulations use_antithetic random_seed"])
    show "Option_init (model_option ?m) = Inr (model_option ?m)"
      using v by simp
    show "volatility (model_option ?m) \<le> 1 / 100"
      using vol by simp
    show "\<exists>m'. rebuild ?m o' = Inr m'
            \<and> (\<exists>o''. m' = MonteCarloModel o'' num_simulations use_antithetic random_seed)"
      if "exercise_style o' = exercise_style (model_option ?m)" for o'
      using that e by (simp add: rebuild_def MonteCarloModel_init_def)
    show "\<exists>x g'. price lib m' g = (Inr x, g')"
      if "\<exists>o'. m' = MonteCarloModel o' num_simulations use_antithetic random_seed" for m' g
      using that monte_carlo_price_returns [OF n s] by auto
    show "\<exists>o'. ?m = MonteCarloModel o' num_simulations use_antithetic random_seed"
      by simp
  qed
  then show ?thesis by (simp add: greeks_def)
qed

text \<open>
  C10. For every engine whose validated contract has volatility at most \<open>0.01\<close>, the
  numerical vega with its default step \<open>0.01\<close> raises the validation error of the
  volatility field: the up-bumped contract validates and the down-bumped one, with
  volatility \<open>original - 0.01 \<le> 0\<close>, does not. So \<open>calculate_all_greeks\<close> never returns a
  value; for a lattice engine with at least one step, and for a simulation engine with a
  non-negative simulation count and an absent or admissible seed, delta, gamma and theta
  are computed first and \<open>greeks()\<close> ends in that validation error.
\<close>

theorem numerical_vega_low_volatility:
  assumes v: "Option_init (model_option model) = Inr (model_option model)"
    and vol: "volatility (model_option model) \<le> 1 / 100"
  shows "NumericalGreeksCalculator_vega lib model (1 / 100) g
           = (Inl (PydanticValidationError [''volatility'']), g)
       \<and> (\<forall>gr g'. calculate_all_greeks lib model g \<noteq> (Inr gr, g'))
       \<and> ((\<exists>opt n. model = BinomialTreeModel opt n \<and> 1 \<le> n)
            \<or> (\<exists>opt n a s. model = MonteCarloModel opt n a s \<and> exercise_style opt = EUROPEAN
                  \<and> 0 \<le> n \<and> (s = None \<or> (\<exists>k. s = Some k \<and> 0 \<le> k \<and> k < 2 ^ 32)))
           \<longrightarrow> (\<exists>g'. greeks lib model g = (Inl (PydanticValidationError [''volatility'']), g')))"
proof (intro conjI impI allI)
  show "NumericalGreeksCalculator_vega lib model (1 / 100) g
           = (Inl (PydanticValidationError [''volatility'']), g)"
    by (rule vega_low_volatility [OF v vol])
  show "calculate_all_greeks lib model g \<noteq> (Inr gr, g')" for gr g'
    by (rule all_greeks_never_returns [OF v vol])
  assume "(\<exists>opt n. model = BinomialTreeModel opt n \<and> 1 \<le> n)
            \<or> (\<exists>opt n a s. model = MonteCarloModel opt n a s \<and> exercise_style opt = EUROPEAN
                  \<and> 0 \<le> n \<and> (s = None \<or> (\<exists>k. s = Some k \<and> 0 \<le> k \<and> k < 2 ^ 32)))"
  then show "\<exists>g'. greeks lib model g = (Inl (PydanticValidationError [''volatility'']), g')"
  proof
    assume "\<exists>opt n. model = BinomialTreeModel opt n \<and> 1 \<le> n"
    then obtain opt n where m: "model = BinomialTreeModel opt n" and n: "1 \<le> n" by blast
    show ?thesis
      using binomial_greeks_low_volatility [of opt n lib g] v vol n by (simp add: m)
  next
    assume "\<exists>opt n a s. model = MonteCarloModel opt n a s \<and> exercise_style opt = EUROPEAN
                  \<and> 0 \<le> n \<and> (s = None \<or> (\<exists>k. s = Some k \<and> 0 \<le> k \<and> k < 2 ^ 32))"
    then obtain opt n a s where m: "model = MonteCarloModel opt n a s"
      and e: "exercise_style opt = EUROPEAN" and n: "0 \<le> n"
      and s: "s = None \<or> (\<exists>k. s = Some k \<and> 0 \<le> k \<and> k < 2 ^ 32)" by blast
    show ?thesis
      using monte_carlo_greeks_low_volatility [of opt n s lib a g] v vol e n s by (simp add: m)
  qed
qed

theorem numerical_vega_low_volatility_witness:
  "NumericalGreeksCalculator_vega sample_lib
       (BinomialTreeModel (simple_call_option\<lparr>volatility := 1 / 100\<rparr>) 100) (1 / 100) 0
     = (Inl (PydanticValidationError [''volatility'']), 0)
   \<and> (\<exists>g'. greeks sample_lib
         (BinomialTreeModel (simple_call_option\<lparr>volatility := 1 / 100\<rparr>) 100) 0
       = (Inl (PydanticValidationError [''volatility'']), g'))"
  using numerical_vega_low_volatility
    [of "BinomialTreeModel (simple_call_option\<lparr>volatility := 1 / 100\<rparr>) 100" sample_lib 0]
  by (simp add: Option_init_def field_errors_def simple_call_option_def)

section \<open>The numerical theta\<close>

lemma crr_probability_identity:
  fixes u d A :: real
  assumes "d < u"
  shows "((A - d) / (u - d)) * u + (1 - (A - d) / (u - d)) * d = A"
proof -
  have nz: "u - d \<noteq> 0" using assms by linarith
  define p where "p = (A - d) / (u - d)"
  have "p * (u - d) = A - d" using nz by (simp add: p_def)
  then have "p * u + (1 - p) * d = A" by (simp add: algebra_simps)
  then show ?thesis by (simp add: p_def)
qed

lemma binomial_one_step_call:
  assumes e: "exercise_style opt = EUROPEAN" and c: "option_type opt = CALL"
    and s: "0 < volatility opt" and t: "0 < time_to_expiry opt"
    and k: "strike_price opt
              \<le> spot_price opt * (1 / exp (volatility opt * sqrt (time_to_expiry opt)))"
    and sp: "0 < spot_price opt"
  shows "BinomialTreeModel_price opt 1
           = Inr (spot_price opt * exp (- dividend_yield opt * time_to_expiry opt)
                  - strike_price opt * exp (- risk_free_rate opt * time_to_expiry opt))"
proof -
  define S where "S = spot_price opt"
  define K where "K = strike_price opt"
  define T where "T = time_to_expiry opt"
  define r where "r = risk_free_rate opt"
  define q where "q = dividend_yield opt"
  define u where "u = exp (volatility opt * sqrt T)"
  define A where "A = exp ((r - q) * T)"
  define D where "D = exp (- r * T)"
  define p where "p = (A - 1 / u) / (u - 1 / u)"
  have u1: "1 < u" using s t by (simp add: u_def T_def)
  have kd: "K \<le> S * (1 / u)" using k by (simp add: K_def S_def u_def T_def)
  have du: "1 / u < u" using u1 by (simp add: less_trans [of "1 / u" 1 u])
  have "S * (1 / u) \<le> S * u"
    using du sp by (intro mult_left_mono) (simp_all add: S_def)
  then have ku: "K \<le> S * u" using kd by linarith
  have tree0: "build_stock_tree opt (Suc 0) (Suc 0) 0 = S / u"
    by (simp add: build_stock_tree_def S_def u_def T_def Let_def)
  have tree1: "build_stock_tree opt (Suc 0) (Suc 0) (Suc 0) = S * u"
    by (simp add: build_stock_tree_def S_def u_def T_def Let_def)
  have pay0: "get_payoff opt (S / u) = S / u - K"
    using kd c by (simp add: get_payoff_def K_def Let_def)
  have pay1: "get_payoff opt (S * u) = S * u - K"
    using ku c by (simp add: get_payoff_def K_def Let_def)
  have tv: "terminal_values opt (Suc 0) = [S / u - K, S * u - K]"
    by (simp add: terminal_values_def tree0 tree1 pay0 pay1 upt_rec)
  have prob: "calculate_risk_neutral_probability opt (Suc 0) = p"
    by (simp add: calculate_risk_neutral_probability_def p_def A_def u_def T_def r_def q_def Let_def)
  have node: "node_value opt (Suc 0) 0 0 [S / u - K, S * u - K]
                = D * (p * (S * u - K) + (1 - p) * (S / u - K))"
    using e by (simp add: node_value_def prob D_def r_def T_def Let_def)
  have row: "induct_row opt (Suc 0) 0 [S / u - K, S * u - K]
                = [D * (p * (S * u - K) + (1 - p) * (S / u - K))]"
    by (simp add: induct_row_def node)
  define d where "d = 1 / u"
  have sd: "S / u = S * d" by (simp add: d_def)
  have pA: "p * u + (1 - p) * d = A"
    unfolding p_def d_def by (rule crr_probability_identity [OF du])
  have "p * (S * u - K) + (1 - p) * (S * d - K) = S * (p * u + (1 - p) * d) - K"
    by (simp add: algebra_simps)
  then have lin: "p * (S * u - K) + (1 - p) * (S * d - K) = S * A - K"
    by (simp only: pA)
  have DA: "D * A = exp (- q * T)"
    by (simp add: D_def A_def exp_add [symmetric] algebra_simps)
  have "D * (S * A - K) = S * (D * A) - K * D"
    by (simp add: algebra_simps)
  then have val: "D * (p * (S * u - K) + (1 - p) * (S / u - K))
                          = S * exp (- q * T) - K * D"
    by (simp only: sd lin DA)
  have "BinomialTreeModel_price opt 1
          = Inr (D * (p * (S * u - K) + (1 - p) * (S / u - K)))"
    by (simp add: BinomialTreeModel_price_def tv row)
  then show ?thesis
    using val by (simp add: S_def K_def T_def q_def r_def D_def)
qed

lemma exp_sqrt_le_3:
  assumes "0 \<le> x" "x \<le> 1"
  shows "exp (sqrt x) \<le> 3"
proof -
  have "sqrt x \<le> 1" using assms by simp
  then have "exp (sqrt x) \<le> exp 1" by simp
  also have "\<dots> \<le> 3" by (rule exp_le)
  finally show ?thesis .
qed

lemma theta_far_from_expiry:
  assumes far: "h < time_to_expiry (model_option m)" and h: "h \<noteq> 0"
    and later: "Option_init ((model_option m)\<lparr>time_to_expiry := time_to_expiry (model_option m) - h\<rparr>)
                  = Inr o_later"
    and now: "price lib m g = (Inr (Some v_now), g1)"
    and rb: "rebuild m o_later = Inr m_later"
    and lat: "price lib m_later g1 = (Inr (Some v_later), g2)"
  shows "NumericalGreeksCalculator_theta lib m h g = (Inr (Some (365 * (v_later - v_now))), g2)"
  using far h
  by (simp add: NumericalGreeksCalculator_theta_def Let_def bind_def lift_def returns_def
      later now rb lat fl_div_def fl_sub_def fl_scale_def CALENDAR_DAYS_PER_YEAR_def)

lemma theta_near_expiry:
  assumes near: "time_to_expiry (model_option m) \<le> h" and h: "h \<noteq> 0"
    and now: "price lib m g = (Inr (Some v_now), g1)"
  shows "NumericalGreeksCalculator_theta lib m h g = (Inr (Some (- v_now / h)), g1)"
  using near h
  by (simp add: NumericalGreeksCalculator_theta_def Let_def bind_def returns_def
      now fl_div_def fl_scale_def)

text \<open>
  C4. Near expiry (\<open>T \<le> h\<close>) the numerical theta is \<open>-V(T)/h\<close> (\<open>theta_near_expiry\<close>).
  Otherwise the code multiplies the yearly rate \<open>(V(T-h) - V(T))/h\<close> by \<open>h * 365\<close>, so it
  returns \<open>365 * (V(T-h) - V(T))\<close> (\<open>theta_far_from_expiry\<close>) where the figure per
  calendar day is the yearly rate divided by 365. Evaluated on a one-step lattice for a
  call with \<open>S = 100\<close>, \<open>K = 1\<close>, \<open>T = 2/365\<close>, \<open>\<sigma> = 1\<close>, \<open>r = 1\<close>, \<open>q = 0\<close> and the
  default step \<open>h = 1/365\<close>, whose prices are \<open>100 - e^(-T)\<close>: the result is
  \<open>365 * (e^(-2/365) - e^(-1/365))\<close>, not the per-day figure.
\<close>

theorem numerical_theta_scaling:
  "NumericalGreeksCalculator_theta sample_lib
      (BinomialTreeModel
         (simple_call_option\<lparr>strike_price := 1, time_to_expiry := 2 / 365, volatility := 1,
            risk_free_rate := 1\<rparr>) 1)
      (1 / 365) 0
     = (Inr (Some (365 * (exp (- (2 / 365)) - exp (- (1 / 365))))), 0)
   \<and> 365 * (exp (- (2 / 365)) - exp (- (1 / 365)))
       \<noteq> ((exp (- (2 / 365)) - exp (- (1 / 365 :: real))) / (1 / 365)) / 365"
proof
  define c where "c = simple_call_option\<lparr>strike_price := 1, time_to_expiry := 2 / 365,
    volatility := 1, risk_free_rate := 1\<rparr>"
  define l where "l = c\<lparr>time_to_expiry := 1 / 365\<rparr>"
  have e2: "exp (sqrt (2 / 365)) \<le> 3" by (rule exp_sqrt_le_3) simp_all
  have e1: "exp (sqrt (1 / 365)) \<le> 3" by (rule exp_sqrt_le_3) simp_all
  have k2: "1 \<le> 100 * (1 / exp (sqrt (2 / 365)))"
  proof -
    have "1 / 3 \<le> 1 / exp (sqrt (2 / 365))"
      using e2 by (intro divide_left_mono) simp_all
    then show ?thesis by simp
  qed
  have k1: "1 \<le> 100 * (1 / exp (sqrt (1 / 365)))"
  proof -
    have "1 / 3 \<le> 1 / exp (sqrt (1 / 365))"
      using e1 by (intro divide_left_mono) simp_all
    then show ?thesis by simp
  qed
  have now: "BinomialTreeModel_price c 1 = Inr (100 - exp (- (2 / 365)))"
    using binomial_one_step_call [of c] k2
    by (simp add: c_def simple_call_option_def)
  have lat: "BinomialTreeModel_price l 1 = Inr (100 - exp (- (1 / 365)))"
    using binomial_one_step_call [of l] k1
    by (simp add: l_def c_def simple_call_option_def)
  have pn: "price sample_lib (BinomialTreeModel c 1) 0 = (Inr (Some (100 - exp (- (2 / 365)))), 0)"
    by (simp add: price_def now returns_def)
  have pl: "price sample_lib (BinomialTreeModel l 1) 0 = (Inr (Some (100 - exp (- (1 / 365)))), 0)"
    by (simp add: price_def lat returns_def)
  have ol: "Option_init ((model_option (BinomialTreeModel c 1))
              \<lparr>time_to_expiry := time_to_expiry (model_option (BinomialTreeModel c 1)) - 1 / 365\<rparr>)
            = Inr l"
    by (simp add: Option_init_def field_errors_def l_def c_def simple_call_option_def)
  have rb: "rebuild (BinomialTreeModel c 1) l = Inr (BinomialTreeModel l 1)"
    by (simp add: rebuild_def BinomialTreeModel_init_def)
  have "NumericalGreeksCalculator_theta sample_lib (BinomialTreeModel c 1) (1 / 365) 0
          = (Inr (Some (365 * ((100 - exp (- (1 / 365))) - (100 - exp (- (2 / 365)))))), 0)"
    by (rule theta_far_from_expiry [OF _ _ ol pn rb pl]) (simp_all add: c_def)
  then show "NumericalGreeksCalculator_theta sample_lib
      (BinomialTreeModel
         (simple_call_option\<lparr>strike_price := 1, time_to_expiry := 2 / 365, volatility := 1,
            risk_free_rate := 1\<rparr>) 1)
      (1 / 365) 0
     = (Inr (Some (365 * (exp (- (2 / 365)) - exp (- (1 / 365))))), 0)"
    by (simp add: c_def algebra_simps)
next
  have "exp (- (2 / 365)) < exp (- (1 / 365 :: real))" by simp
  then show "365 * (exp (- (2 / 365)) - exp (- (1 / 365)))
       \<noteq> ((exp (- (2 / 365)) - exp (- (1 / 365 :: real))) / (1 / 365)) / 365"
    by simp
qed

section \<open>The preconditions of the implied volatility solver\<close>

lemma trial_option_error:
  "trial_option spot strike time rate otype div_yield vol = Inl e
     \<Longrightarrow> \<exists>fs. e = PydanticValidationError fs"
  by (auto simp: trial_option_def Option_init_def BlackScholesModel_init_def
      split: if_splits sum.splits)

lemma newton_raphson_loop_error:
  "fst (newton_raphson_loop cdf pdf spot strike time rate target otype div_yield tol k vol cnt)
     \<noteq> Inl (ImpliedVolatilityError BelowIntrinsic)
   \<and> fst (newton_raphson_loop cdf pdf spot strike time rate target otype div_yield tol k vol cnt)
     \<noteq> Inl (ImpliedVolatilityError PriceNotPositive)"
proof (induction k arbitrary: vol cnt)
  case 0
  show ?case by simp
next
  case (Suc k)
  show ?case
  proof (cases "trial_option spot strike time rate otype div_yield vol")
    case (Inl e)
    then show ?thesis using trial_option_error [OF Inl] by auto
  next
    case (Inr model)
    then show ?thesis using Suc.IH by (simp add: Let_def)
  qed
qed

lemma bisection_loop_error:
  "fst (bisection_loop cdf spot strike time rate target otype div_yield tol k lo hi cnt)
     \<noteq> Inl (ImpliedVolatilityError BelowIntrinsic)
   \<and> fst (bisection_loop cdf spot strike time rate target otype div_yield tol k lo hi cnt)
     \<noteq> Inl (ImpliedVolatilityError PriceNotPositive)"
proof (induction k arbitrary: lo hi cnt)
  case 0
  show ?case by simp
next
  case (Suc k)
  show ?case
  proof (cases "trial_option spot strike time rate otype div_yield ((lo + hi) / 2)")
    case (Inl e)
    then show ?thesis using trial_option_error [OF Inl] by (auto simp: Let_def)
  next
    case (Inr model)
    then show ?thesis using Suc.IH by (simp add: Let_def)
  qed
qed

lemma bisection_loop_count:
  "cnt \<le> snd (bisection_loop cdf spot strike time rate target otype div_yield tol k lo hi cnt)"
proof (induction k arbitrary: lo hi cnt)
  case 0
  show ?case by simp
next
  case (Suc k)
  show ?case
  proof (cases "trial_option spot strike time rate otype div_yield ((lo + hi) / 2)")
    case (Inl e)
    then show ?thesis by (simp add: Let_def)
  next
    case (Inr model)
    have "Suc cnt \<le> snd (bisection_loop cdf spot strike time rate target otype div_yield tol k
             lo' hi' (Suc cnt))" for lo' hi'
      by (rule Suc.IH)
    then have "cnt \<le> snd (bisection_loop cdf spot strike time rate target otype div_yield tol k
             lo' hi' (Suc cnt))" for lo' hi'
      using Suc_leD by blast
    then show ?thesis using Inr by (simp add: Let_def)
  qed
qed

lemma bisection_loop_prices:
  assumes "trial_option spot strike time rate otype div_yield ((lo + hi) / 2) = Inr model"
  shows "Suc cnt
    \<le> snd (bisection_loop cdf spot strike time rate target otype div_yield tol (Suc k) lo hi cnt)"
  using assms bisection_loop_count [of "Suc cnt" cdf spot strike time rate target otype div_yield tol k]
  by (simp add: Let_def)

lemma implied_volatility_passes_validation:
  assumes "calculate_intrinsic_value spot strike time rate otype div_yield \<le> market_price"
    and "0 < market_price"
  shows "fst (implied_volatility cdf pdf spot strike time rate market_price otype div_yield guess tol
            max_iter) \<noteq> Inl (ImpliedVolatilityError BelowIntrinsic)
       \<and> fst (implied_volatility cdf pdf spot strike time rate market_price otype div_yield guess tol
            max_iter) \<noteq> Inl (ImpliedVolatilityError PriceNotPositive)"
proof -
  let ?b = "\<lambda>cnt. bisection_method cdf spot strike time rate market_price otype div_yield tol
              max_iter cnt"
  let ?n = "newton_raphson cdf pdf spot strike time rate market_price otype div_yield guess tol
              max_iter 0"
  have b: "fst (?b cnt) \<noteq> Inl (ImpliedVolatilityError BelowIntrinsic)
         \<and> fst (?b cnt) \<noteq> Inl (ImpliedVolatilityError PriceNotPositive)" for cnt
    unfolding bisection_method_def by (rule bisection_loop_error)
  have n: "fst ?n \<noteq> Inl (ImpliedVolatilityError BelowIntrinsic)
         \<and> fst ?n \<noteq> Inl (ImpliedVolatilityError PriceNotPositive)"
    unfolding newton_raphson_def by (rule newton_raphson_loop_error)
  have c: "fst (case ?n of (Inl (ImpliedVolatilityError f), cnt) \<Rightarrow> ?b cnt | res \<Rightarrow> res)
             \<noteq> Inl (ImpliedVolatilityError BelowIntrinsic)
         \<and> fst (case ?n of (Inl (ImpliedVolatilityError f), cnt) \<Rightarrow> ?b cnt | res \<Rightarrow> res)
             \<noteq> Inl (ImpliedVolatilityError PriceNotPositive)"
    using n b by (auto split: prod.splits sum.splits error.splits)
  show ?thesis
    using assms b c by (simp add: implied_volatility_def Let_def)
qed

text \<open>
  C3, as the code has it. A market price strictly below the intrinsic present value is
  refused with \<open>ImpliedVolatilityError\<close> and a market price that is not positive likewise,
  in both cases before any price is computed (the count of prices is 0). A market price
  that is at least the intrinsic value and positive passes the validation: whatever the
  solver then returns, it is neither of the two validation errors. The test is
  \<open>market_price < intrinsic_value\<close>, so a price equal to the intrinsic value is accepted
  and goes to the bisection.
\<close>

theorem implied_volatility_validation:
  "(market_price < calculate_intrinsic_value spot strike time rate otype div_yield \<longrightarrow>
      implied_volatility cdf pdf spot strike time rate market_price otype div_yield guess tol max_iter
        = (Inl (ImpliedVolatilityError BelowIntrinsic), 0))
   \<and> (calculate_intrinsic_value spot strike time rate otype div_yield \<le> market_price
        \<and> market_price \<le> 0 \<longrightarrow>
      implied_volatility cdf pdf spot strike time rate market_price otype div_yield guess tol max_iter
        = (Inl (ImpliedVolatilityError PriceNotPositive), 0))
   \<and> (calculate_intrinsic_value spot strike time rate otype div_yield \<le> market_price
        \<and> 0 < market_price \<longrightarrow>
      fst (implied_volatility cdf pdf spot strike time rate market_price otype div_yield guess tol
             max_iter) \<noteq> Inl (ImpliedVolatilityError BelowIntrinsic)
      \<and> fst (implied_volatility cdf pdf spot strike time rate market_price otype div_yield guess tol
             max_iter) \<noteq> Inl (ImpliedVolatilityError PriceNotPositive))"
proof (intro conjI impI)
  assume "market_price < calculate_intrinsic_value spot strike time rate otype div_yield"
  then show "implied_volatility cdf pdf spot strike time rate market_price otype div_yield guess tol
      max_iter = (Inl (ImpliedVolatilityError BelowIntrinsic), 0)"
    by (simp add: implied_volatility_def Let_def)
next
  assume "calculate_intrinsic_value spot strike time rate otype div_yield \<le> market_price
        \<and> market_price \<le> 0"
  then show "implied_volatility cdf pdf spot strike time rate market_price otype div_yield guess tol
      max_iter = (Inl (ImpliedVolatilityError PriceNotPositive), 0)"
    by (simp add: implied_volatility_def Let_def)
next
  assume a: "calculate_intrinsic_value spot strike time rate otype div_yield \<le> market_price
        \<and> 0 < market_price"
  show "fst (implied_volatility cdf pdf spot strike time rate market_price otype div_yield guess tol
             max_iter) \<noteq> Inl (ImpliedVolatilityError BelowIntrinsic)"
    using implied_volatility_passes_validation [of spot strike time rate otype div_yield
        market_price cdf pdf guess tol max_iter] a by blast
  show "fst (implied_volatility cdf pdf spot strike time rate market_price otype div_yield guess tol
             max_iter) \<noteq> Inl (ImpliedVolatilityError PriceNotPositive)"
    using implied_volatility_passes_validation [of spot strike time rate otype div_yield
        market_price cdf pdf guess tol max_iter] a by blast
qed

theorem implied_volatility_validation_witness:
  "implied_volatility logistic_cdf gaussian_pdf 110 100 1 0 5 CALL 0 IV_INITIAL_GUESS IV_SOLVER_TOLERANCE
       IV_SOLVER_MAX_ITERATIONS = (Inl (ImpliedVolatilityError BelowIntrinsic), 0)
   \<and> implied_volatility logistic_cdf gaussian_pdf 100 100 1 0 0 CALL 0 IV_INITIAL_GUESS IV_SOLVER_TOLERANCE
       IV_SOLVER_MAX_ITERATIONS = (Inl (ImpliedVolatilityError PriceNotPositive), 0)
   \<and> fst (implied_volatility logistic_cdf gaussian_pdf 110 100 1 0 12 CALL 0 IV_INITIAL_GUESS
         IV_SOLVER_TOLERANCE IV_SOLVER_MAX_ITERATIONS)
       \<noteq> Inl (ImpliedVolatilityError BelowIntrinsic)
   \<and> fst (implied_volatility logistic_cdf gaussian_pdf 110 100 1 0 12 CALL 0 IV_INITIAL_GUESS
         IV_SOLVER_TOLERANCE IV_SOLVER_MAX_ITERATIONS)
       \<noteq> Inl (ImpliedVolatilityError PriceNotPositive)"
  using implied_volatility_validation [where market_price = 5 and spot = 110 and strike = 100
      and time = 1 and rate = 0 and otype = CALL and div_yield = 0 and cdf = logistic_cdf
      and guess = IV_INITIAL_GUESS and tol = IV_SOLVER_TOLERANCE
      and max_iter = IV_SOLVER_MAX_ITERATIONS]
    implied_volatility_validation [where market_price = 0 and spot = 100 and strike = 100
      and time = 1 and rate = 0 and otype = CALL and div_yield = 0 and cdf = logistic_cdf
      and guess = IV_INITIAL_GUESS and tol = IV_SOLVER_TOLERANCE
      and max_iter = IV_SOLVER_MAX_ITERATIONS]
    implied_volatility_validation [where market_price = 12 and spot = 110 and strike = 100
      and time = 1 and rate = 0 and otype = CALL and div_yield = 0 and cdf = logistic_cdf
      and guess = IV_INITIAL_GUESS and tol = IV_SOLVER_TOLERANCE
      and max_iter = IV_SOLVER_MAX_ITERATIONS]
  by (simp add: calculate_intrinsic_value_def)

text \<open>
  The claim as stated asks for an immediate failure whenever the market price does not
  strictly exceed the intrinsic value. For a call with spot 110, strike 100, no rate and
  no dividend the intrinsic value is 10; at a market price of 10 the function raises no
  validation error and computes at least one price.
\<close>

theorem implied_volatility_boundary_counterexample:
  "\<not> calculate_intrinsic_value 110 100 1 0 CALL 0 < 10
   \<and> 0 < snd (implied_volatility logistic_cdf gaussian_pdf 110 100 1 0 10 CALL 0 IV_INITIAL_GUESS
             IV_SOLVER_TOLERANCE IV_SOLVER_MAX_ITERATIONS)
   \<and> fst (implied_volatility logistic_cdf gaussian_pdf 110 100 1 0 10 CALL 0 IV_INITIAL_GUESS
         IV_SOLVER_TOLERANCE IV_SOLVER_MAX_ITERATIONS)
       \<noteq> Inl (ImpliedVolatilityError BelowIntrinsic)
   \<and> fst (implied_volatility logistic_cdf gaussian_pdf 110 100 1 0 10 CALL 0 IV_INITIAL_GUESS
         IV_SOLVER_TOLERANCE IV_SOLVER_MAX_ITERATIONS)
       \<noteq> Inl (ImpliedVolatilityError PriceNotPositive)"
proof -
  have i: "calculate_intrinsic_value 110 100 1 0 CALL 0 = 10"
    by (simp add: calculate_intrinsic_value_def)
  have n: "nat IV_SOLVER_MAX_ITERATIONS = Suc 49"
    by (simp add: IV_SOLVER_MAX_ITERATIONS_def)
  obtain model where t:
    "trial_option 110 100 1 0 CALL 0 ((IV_MIN_VALUE + IV_MAX_VALUE) / 2) = Inr model"
    by (simp add: trial_option_def Option_init_def field_errors_def BlackScholesModel_init_def
        IV_MIN_VALUE_def IV_MAX_VALUE_def)
  have iv: "implied_volatility logistic_cdf gaussian_pdf 110 100 1 0 10 CALL 0 IV_INITIAL_GUESS
             IV_SOLVER_TOLERANCE IV_SOLVER_MAX_ITERATIONS
        = bisection_loop logistic_cdf 110 100 1 0 10 CALL 0 IV_SOLVER_TOLERANCE (Suc 49)
            IV_MIN_VALUE IV_MAX_VALUE 0"
    by (simp only: implied_volatility_def Let_def i bisection_method_def n) simp
  have "Suc 0 \<le> snd (bisection_loop logistic_cdf 110 100 1 0 10 CALL 0 IV_SOLVER_TOLERANCE
            (Suc 49) IV_MIN_VALUE IV_MAX_VALUE 0)"
    by (rule bisection_loop_prices [OF t])
  then have c: "0 < snd (implied_volatility logistic_cdf gaussian_pdf 110 100 1 0 10 CALL 0 IV_INITIAL_GUESS
             IV_SOLVER_TOLERANCE IV_SOLVER_MAX_ITERATIONS)"
    by (simp only: iv Suc_le_eq)
  show ?thesis
    using c i implied_volatility_passes_validation [of 110 100 1 0 CALL 0 10 logistic_cdf
        gaussian_pdf IV_INITIAL_GUESS IV_SOLVER_TOLERANCE IV_SOLVER_MAX_ITERATIONS]
    by simp
qed

section \<open>Monte Carlo: the seed\<close>

lemma length_draws: "length (fst (draws dr n g)) = n"
proof (induction n arbitrary: g)
  case 0
  show ?case by simp
next
  case (Suc n)
  obtain z g1 where d: "dr g = (z, g1)" by (cases "dr g")
  obtain zs g2 where r: "draws dr n g1 = (zs, g2)" by (cases "draws dr n g1")
  have "length zs = n" using Suc.IH [of g1] r by simp
  then show ?case by (simp add: d r)
qed

lemma generate_price_paths_seeded:
  "fst (generate_price_paths lib (MonteCarloModel opt n a (Some s)) g)
     = fst (generate_price_paths lib (MonteCarloModel opt n a (Some s)) g')"
  by (simp add: generate_price_paths_def np_random_seed_def Let_def)

lemma MonteCarloModel_price_seeded:
  "fst (MonteCarloModel_price lib (MonteCarloModel opt n a (Some s)) cache g)
     = fst (MonteCarloModel_price lib (MonteCarloModel opt n a (Some s)) cache' g')"
proof -
  let ?m = "MonteCarloModel opt n a (Some s)"
  have f: "fst (MonteCarloModel_price lib ?m c h)
     = (case fst (generate_price_paths lib ?m h) of
          Inl e \<Rightarrow> Inl e
        | Inr ST \<Rightarrow>
            Inr (fl_scale (exp (- risk_free_rate opt * time_to_expiry opt))
                   (np_mean (calculate_payoffs opt ST))))" for c h
    by (cases "generate_price_paths lib ?m h")
      (simp add: MonteCarloModel_price_def Let_def split: sum.splits)
  show ?thesis
    unfolding f by (simp only: generate_price_paths_seeded [of lib opt n a s g g'])
qed

text \<open>
  C7. An engine built with a seed that is not \<open>None\<close>, which includes an engine built
  without a seed argument since the default is 42, returns the same price (or raises the
  same error) whatever the state of the global generator and of its own cache: the price
  of one call equals the price of any other call, in particular of the call that follows
  it on the state the first one left behind.
\<close>

theorem seeded_price_deterministic:
  assumes "MonteCarloModel_init opt num_simulations use_antithetic seed_arg = Inr m"
    and "seed_arg \<noteq> Some None"
  shows "fst (MonteCarloModel_price lib m cache g) = fst (MonteCarloModel_price lib m cache' g')
       \<and> (case MonteCarloModel_price lib m cache g of
             (r1, cache1, g1) \<Rightarrow> fst (MonteCarloModel_price lib m cache1 g1) = r1)
       \<and> (seed_arg = None \<longrightarrow>
             m = MonteCarloModel opt
                   (case num_simulations of None \<Rightarrow> DEFAULT_NUM_SIMULATIONS | Some n \<Rightarrow> n)
                   (case use_antithetic of None \<Rightarrow> True | Some a \<Rightarrow> a)
                   (Some 42))"
proof -
  obtain n a s where m: "m = MonteCarloModel opt n a (Some s)"
    using assms
    by (cases seed_arg) (auto simp: MonteCarloModel_init_def split: if_splits option.splits)
  have d: "fst (MonteCarloModel_price lib m c h) = fst (MonteCarloModel_price lib m c' h')"
    for c h c' h'
    unfolding m by (rule MonteCarloModel_price_seeded)
  have "seed_arg = None \<longrightarrow>
             m = MonteCarloModel opt
                   (case num_simulations of None \<Rightarrow> DEFAULT_NUM_SIMULATIONS | Some n \<Rightarrow> n)
                   (case use_antithetic of None \<Rightarrow> True | Some a \<Rightarrow> a)
                   (Some 42)"
    using assms(1)
    by (auto simp: MonteCarloModel_init_def DEFAULT_RANDOM_SEED_def split: if_splits)
  moreover have "(case MonteCarloModel_price lib m cache g of
             (r1, cache1, g1) \<Rightarrow> fst (MonteCarloModel_price lib m cache1 g1) = r1)"
  proof -
    obtain r1 cache1 g1 where p: "MonteCarloModel_price lib m cache g = (r1, cache1, g1)"
      by (cases "MonteCarloModel_price lib m cache g")
    have "fst (MonteCarloModel_price lib m cache1 g1) = fst (MonteCarloModel_price lib m cache g)"
      by (rule d)
    then show ?thesis by (simp add: p)
  qed
  ultimately show ?thesis using d [of cache g cache' g'] by blast
qed

theorem seeded_price_deterministic_witness:
  "fst (MonteCarloModel_price sample_lib
          (MonteCarloModel simple_call_option 10000 True (Some 42)) empty_cache 0)
     = fst (MonteCarloModel_price sample_lib
          (MonteCarloModel simple_call_option 10000 True (Some 42)) empty_cache 7)"
proof -
  have i: "MonteCarloModel_init simple_call_option None None None
             = Inr (MonteCarloModel simple_call_option 10000 True (Some 42))"
    by (simp add: MonteCarloModel_init_def simple_call_option_def DEFAULT_NUM_SIMULATIONS_def
        DEFAULT_RANDOM_SEED_def)
  have n: "(None :: int option option) \<noteq> Some None" by simp
  show ?thesis
    using seeded_price_deterministic [OF i n, of sample_lib empty_cache 0 empty_cache 7]
    by blast
qed

section \<open>Monte Carlo: the sample size under antithetic variates\<close>

lemma generate_price_paths_length:
  assumes "generate_price_paths lib (MonteCarloModel opt n a s) g = (Inr ST, g')"
  shows "length ST = (if a then 2 * nat (n div 2) else nat n)"
proof -
  obtain u g0 where g0:
    "(case s of None \<Rightarrow> (Inr (), g) | Some k \<Rightarrow> np_random_seed lib k g) = (Inr u, g0)"
    using assms
    by (cases "(case s of None \<Rightarrow> (Inr (), g) | Some k \<Rightarrow> np_random_seed lib k g)")
      (auto simp: generate_price_paths_def split: sum.splits)
  show ?thesis
  proof (cases a)
    case True
    have "length (fst (draws (draw_normal lib) (nat (n div 2)) g0)) = nat (n div 2)"
      by (rule length_draws)
    then show ?thesis
      using assms True
      by (auto simp: generate_price_paths_def g0 Let_def np_random_standard_normal_def
          split: if_splits prod.splits sum.splits)
  next
    case False
    have "length (fst (draws (draw_normal lib) (nat n) g0)) = nat n"
      by (rule length_draws)
    then show ?thesis
      using assms False
      by (auto simp: generate_price_paths_def g0 Let_def np_random_standard_normal_def
          split: if_splits prod.splits sum.splits)
  qed
qed

text \<open>
  C5. With antithetic variates the engine draws \<open>M // 2\<close> values and uses them with
  their negations, which gives \<open>2 * (M // 2)\<close> terminal prices
  (\<open>generate_price_paths_length\<close>): \<open>M\<close> for an even count and \<open>M - 1\<close> for an odd one,
  while the standard error still divides by \<open>\<surd>M\<close>. For \<open>M = 3\<close> there are two terminal
  prices.
\<close>

theorem antithetic_odd_sample_size:
  "(case fst (generate_price_paths sample_lib
               (MonteCarloModel simple_call_option 3 True (Some 42)) 0) of
      Inl e \<Rightarrow> None
    | Inr ST \<Rightarrow> Some (length ST)) = Some 2"
  by (simp add: generate_price_paths_def np_random_seed_def np_random_standard_normal_def
      sample_lib_def cycle_draw_def Let_def)

section \<open>Monte Carlo: the confidence interval\<close>

lemma np_std_ddof1_nonneg: "np_std_ddof1 xs = Some sd \<Longrightarrow> 0 \<le> sd"
proof -
  assume a: "np_std_ddof1 xs = Some sd"
  define mu where "mu = sum_list xs / real (length xs)"
  have l: "\<not> length xs \<le> 1" using a by (auto simp: np_std_ddof1_def split: if_splits)
  have sd: "sd = sqrt (sum_list (map (\<lambda>x. (x - mu) ^ 2) xs) / real (length xs - 1))"
    using a l by (simp add: np_std_ddof1_def Let_def mu_def)
  have "0 \<le> sum_list (map (\<lambda>x. (x - mu) ^ 2) xs)"
    by (rule sum_list_nonneg) auto
  then show ?thesis by (simp add: sd)
qed

lemma sum_squares_zero_iff:
  "sum_list (map (\<lambda>x. (x - c) ^ 2) xs) = 0 \<longleftrightarrow> (\<forall>x\<in>set xs. x = (c :: real))"
proof (induction xs)
  case Nil
  show ?case by simp
next
  case (Cons a xs)
  have n: "0 \<le> sum_list (map (\<lambda>x. (x - c) ^ 2) xs)"
    by (rule sum_list_nonneg) auto
  have "(a - c) ^ 2 + sum_list (map (\<lambda>x. (x - c) ^ 2) xs) = 0
          \<longleftrightarrow> (a - c) ^ 2 = 0 \<and> sum_list (map (\<lambda>x. (x - c) ^ 2) xs) = 0"
    using n by (intro add_nonneg_eq_0_iff) simp_all
  then show ?case using Cons.IH by simp
qed

lemma np_std_ddof1_pos_iff:
  assumes "np_std_ddof1 xs = Some sd" and "np_mean xs = Some mu"
  shows "0 < sd \<longleftrightarrow> (\<exists>x\<in>set xs. x \<noteq> mu)"
proof -
  have l: "\<not> length xs \<le> 1" using assms(1) by (auto simp: np_std_ddof1_def split: if_splits)
  have mu: "mu = sum_list xs / real (length xs)"
    using assms(2) by (auto simp: np_mean_def split: if_splits)
  define S where "S = sum_list (map (\<lambda>x. (x - mu) ^ 2) xs)"
  have sd: "sd = sqrt (S / real (length xs - 1))"
    using assms(1) l by (simp add: np_std_ddof1_def Let_def mu S_def)
  have n: "0 < real (length xs - 1)" using l by simp
  have S0: "0 \<le> S" unfolding S_def by (rule sum_list_nonneg) auto
  have z: "S = 0 \<longleftrightarrow> (\<forall>x\<in>set xs. x = mu)"
    unfolding S_def by (rule sum_squares_zero_iff)
  have "0 < sd \<longleftrightarrow> 0 < S / real (length xs - 1)" by (simp only: sd real_sqrt_gt_0_iff)
  also have "\<dots> \<longleftrightarrow> 0 < S" using n by (simp only: zero_less_divide_iff) auto
  also have "\<dots> \<longleftrightarrow> S \<noteq> 0" using S0 by linarith
  also have "\<dots> \<longleftrightarrow> (\<exists>x\<in>set xs. x \<noteq> mu)" unfolding z by auto
  finally show ?thesis .
qed

lemma generate_price_paths_count_nonneg:
  assumes "generate_price_paths lib (MonteCarloModel opt n a s) g = (Inr ST, g')"
  shows "0 \<le> n"
proof (rule ccontr)
  assume "\<not> 0 \<le> n"
  then have "n < 0" "n div 2 < 0" by simp_all
  then show False
    using assms
    by (auto simp: generate_price_paths_def np_random_standard_normal_def
        Let_def split: prod.splits sum.splits if_splits)
qed

lemma MonteCarloModel_price_Inr:
  assumes "MonteCarloModel_price lib m cache g = (Inr pr, c1, g1)"
  shows "\<exists>opt n a s ST. m = MonteCarloModel opt n a s
           \<and> generate_price_paths lib m g = (Inr ST, g1)
           \<and> pr = fl_scale (exp (- risk_free_rate opt * time_to_expiry opt))
                    (np_mean (calculate_payoffs opt ST))
           \<and> c1 = \<lparr> last_paths = Some ST,
                    standard_error = Some (fl_div
                      (fl_scale (exp (- risk_free_rate opt * time_to_expiry opt))
                         (np_std_ddof1 (calculate_payoffs opt ST)))
                      (sqrt (real_of_int n))) \<rparr>"
proof (cases m)
  case (MonteCarloModel opt n a s)
  obtain r g2 where gp: "generate_price_paths lib m g = (r, g2)"
    by (cases "generate_price_paths lib m g")
  obtain ST where r: "r = Inr ST"
    using assms by (cases r) (simp_all add: MonteCarloModel_price_def gp)
  show ?thesis
    using assms gp r unfolding MonteCarloModel
    by (auto simp: MonteCarloModel_price_def Let_def)
next
  case (BlackScholesModel opt)
  then show ?thesis
    using assms by (simp add: MonteCarloModel_price_def generate_price_paths_def)
next
  case (BinomialTreeModel opt k)
  then show ?thesis
    using assms by (simp add: MonteCarloModel_price_def generate_price_paths_def)
qed

text \<open>
  C6, as the code has it. \<open>get_confidence_interval\<close> calls \<open>price\<close> itself and reports the
  interval around the price of that call. Whenever it returns two numbers at the 95 percent level,
  with a positive quantile \<open>z = norm.ppf(0.975)\<close>: the engine is a Monte Carlo engine with
  \<open>M > 0\<close> simulations; the price \<open>p\<close> of the call is the discount factor times the mean
  of the payoffs of the paths it generated; the standard error \<open>se\<close> it stored is the
  discount factor times the sample standard deviation (\<open>ddof=1\<close>) of those payoffs,
  divided by \<open>\<surd>M\<close>; \<open>se\<close> is not negative, and positive exactly when the standard
  deviation is; the interval is \<open>(p - z * se, p + z * se)\<close>; the price lies in the closed
  interval, and strictly inside exactly when the standard error is positive, which is
  when some payoff differs from the mean payoff. For an engine
  with a seed, \<open>p\<close> is also the price that every call of \<open>price\<close> returns.
\<close>

theorem confidence_interval_contains_price:
  assumes z: "0 < norm_ppf lib ((1 + 95 / 100) / 2)"
    and run: "get_confidence_interval lib m (95 / 100) cache g
                = (Inr (Some lo, Some hi), cache', g')"
  shows "\<exists>opt n a s ST mu sd p se.
           m = MonteCarloModel opt n a s
         \<and> generate_price_paths lib m g = (Inr ST, g')
         \<and> 0 < n
         \<and> np_mean (calculate_payoffs opt ST) = Some mu
         \<and> np_std_ddof1 (calculate_payoffs opt ST) = Some sd
         \<and> p = exp (- risk_free_rate opt * time_to_expiry opt) * mu
         \<and> se = exp (- risk_free_rate opt * time_to_expiry opt) * sd / sqrt (real_of_int n)
         \<and> MonteCarloModel_price lib m cache g
             = (Inr (Some p), \<lparr> last_paths = Some ST, standard_error = Some (Some se) \<rparr>, g')
         \<and> cache' = \<lparr> last_paths = Some ST, standard_error = Some (Some se) \<rparr>
         \<and> (s \<noteq> None \<longrightarrow> (\<forall>c0 g0. fst (MonteCarloModel_price lib m c0 g0) = Inr (Some p)))
         \<and> 0 \<le> se \<and> (0 < se \<longleftrightarrow> 0 < sd)
         \<and> (0 < se \<longleftrightarrow> (\<exists>x\<in>set (calculate_payoffs opt ST). x \<noteq> mu))
         \<and> lo = p - norm_ppf lib ((1 + 95 / 100) / 2) * se
         \<and> hi = p + norm_ppf lib ((1 + 95 / 100) / 2) * se
         \<and> lo \<le> p \<and> p \<le> hi \<and> ((lo < p \<and> p < hi) \<longleftrightarrow> 0 < se)"
proof -
  define zq where "zq = norm_ppf lib ((1 + 95 / 100) / 2)"
  obtain r c1 g1 where pr: "MonteCarloModel_price lib m cache g = (r, c1, g1)"
    by (cases "MonteCarloModel_price lib m cache g")
  obtain price where r: "r = Inr price"
    using run by (cases r) (simp_all add: get_confidence_interval_def pr)
  define margin where
    "margin = fl_scale zq (case standard_error c1 of None \<Rightarrow> None | Some se \<Rightarrow> se)"
  have eq: "fl_sub price margin = Some lo" "fl_add price margin = Some hi"
    "c1 = cache'" "g1 = g'"
    using run by (auto simp: get_confidence_interval_def pr r Let_def margin_def zq_def)
  obtain p mg where p: "price = Some p" and mg: "margin = Some mg"
    and lo: "lo = p - mg" and hi: "hi = p + mg"
    using eq(1,2) by (auto simp: fl_sub_def fl_add_def split: option.splits)
  obtain se where se: "standard_error c1 = Some (Some se)" and m: "mg = zq * se"
    using mg by (auto simp: margin_def fl_scale_def split: option.splits)
  obtain opt n a s ST where mm: "m = MonteCarloModel opt n a s"
    and gp: "generate_price_paths lib m g = (Inr ST, g1)"
    and pv: "price = fl_scale (exp (- risk_free_rate opt * time_to_expiry opt))
                    (np_mean (calculate_payoffs opt ST))"
    and cv: "c1 = \<lparr> last_paths = Some ST,
                    standard_error = Some (fl_div
                      (fl_scale (exp (- risk_free_rate opt * time_to_expiry opt))
                         (np_std_ddof1 (calculate_payoffs opt ST)))
                      (sqrt (real_of_int n))) \<rparr>"
    using MonteCarloModel_price_Inr [of lib m cache g price c1 g1] pr r by auto
  define D where "D = exp (- risk_free_rate opt * time_to_expiry opt)"
  obtain mu where mu: "np_mean (calculate_payoffs opt ST) = Some mu" and pm: "p = D * mu"
    using pv p by (auto simp: fl_scale_def D_def split: option.splits)
  have sev: "fl_div (fl_scale D (np_std_ddof1 (calculate_payoffs opt ST))) (sqrt (real_of_int n))
               = Some se"
    using se cv by (simp add: D_def)
  obtain sd where sd: "np_std_ddof1 (calculate_payoffs opt ST) = Some sd"
    and nz: "sqrt (real_of_int n) \<noteq> 0" and sv: "se = D * sd / sqrt (real_of_int n)"
    using sev by (auto simp: fl_div_def fl_scale_def split: option.splits if_splits)
  have "0 \<le> n"
    using generate_price_paths_count_nonneg [of lib opt n a s g ST g1] gp mm by simp
  then have n: "0 < n" using nz by (cases "n = 0") simp_all
  have sn: "0 < sqrt (real_of_int n)" using n by simp
  have Dp: "0 < D" by (simp add: D_def)
  have sdn: "0 \<le> sd" by (rule np_std_ddof1_nonneg [OF sd])
  have nn: "0 \<le> se" using sdn Dp sn by (simp add: sv)
  have pos: "0 < se \<longleftrightarrow> 0 < sd"
    using Dp sn by (simp add: sv zero_less_mult_iff zero_less_divide_iff)
  have pos2: "0 < se \<longleftrightarrow> (\<exists>x\<in>set (calculate_payoffs opt ST). x \<noteq> mu)"
    using pos np_std_ddof1_pos_iff [OF sd mu] by simp
  have zp: "0 < zq" using z by (simp add: zq_def)
  have mn: "0 \<le> zq * se" using zp nn by simp
  have st: "0 < zq * se \<longleftrightarrow> 0 < se" using zp by (simp add: zero_less_mult_iff)
  have c1v: "c1 = \<lparr> last_paths = Some ST, standard_error = Some (Some se) \<rparr>"
    using cv sev by (simp add: D_def)
  have f1: "MonteCarloModel_price lib m cache g
             = (Inr (Some p), \<lparr> last_paths = Some ST, standard_error = Some (Some se) \<rparr>, g')"
    using pr r p eq(4) c1v by simp
  have f2: "cache' = \<lparr> last_paths = Some ST, standard_error = Some (Some se) \<rparr>"
    using c1v eq(3) by simp
  have f3: "s \<noteq> None \<longrightarrow> (\<forall>c0 g0. fst (MonteCarloModel_price lib m c0 g0) = Inr (Some p))"
  proof (intro impI allI)
    fix c0 g0
    assume "s \<noteq> None"
    then obtain k where k: "s = Some k" by (cases s) simp_all
    have "fst (MonteCarloModel_price lib m c0 g0) = fst (MonteCarloModel_price lib m cache g)"
      unfolding mm k by (rule MonteCarloModel_price_seeded)
    then show "fst (MonteCarloModel_price lib m c0 g0) = Inr (Some p)"
      by (simp add: f1)
  qed
  have f4: "lo \<le> p \<and> p \<le> hi \<and> ((lo < p \<and> p < hi) \<longleftrightarrow> 0 < se)"
    using mn st by (auto simp: lo hi m)
  have f5: "generate_price_paths lib m g = (Inr ST, g')" using gp eq(4) by simp
  have f6: "p = exp (- risk_free_rate opt * time_to_expiry opt) * mu"
    "se = exp (- risk_free_rate opt * time_to_expiry opt) * sd / sqrt (real_of_int n)"
    using pm sv by (simp_all add: D_def)
  have f7: "lo = p - norm_ppf lib ((1 + 95 / 100) / 2) * se"
    "hi = p + norm_ppf lib ((1 + 95 / 100) / 2) * se"
    using lo hi m by (simp_all add: zq_def)
  show ?thesis
    using mm f5 n mu sd f6 f1 f2 f3 nn pos pos2 f7 f4 by blast
qed

lemma draws_two:
  "draws dr 2 g = (case dr g of (z, g1) \<Rightarrow> (case dr g1 of (z', g2) \<Rightarrow> ([z, z'], g2)))"
  by (simp add: numeral_2_eq_2 split: prod.splits)

lemma logistic_ppf_positive: "0 < norm_ppf sample_lib ((1 + 95 / 100) / 2)"
  by (simp add: sample_lib_def logistic_ppf_def)

lemma logistic_ppf_value: "norm_ppf sample_lib ((1 + 95 / 100) / 2) = ln 39"
  by (simp add: sample_lib_def logistic_ppf_def)

lemma at_the_money_paths:
  "generate_price_paths sample_lib
     (MonteCarloModel (simple_call_option\<lparr>spot_price := 1, strike_price := 1, volatility := 1,
        risk_free_rate := 1 / 2\<rparr>) 4 True (Some 42)) g
     = (Inr [1, exp 1, 1, exp (- 1)], 44)"
  by (simp add: generate_price_paths_def np_random_seed_def np_random_standard_normal_def
      sample_lib_def cycle_draw_def Let_def simple_call_option_def draws_two)

lemma at_the_money_payoffs:
  "calculate_payoffs (simple_call_option\<lparr>spot_price := 1, strike_price := 1, volatility := 1,
        risk_free_rate := 1 / 2\<rparr>) [1, exp 1, 1, exp (- 1)] = [0, exp 1 - 1, 0, 0]"
proof -
  have a: "(1 :: real) \<le> exp 1" by simp
  have b: "exp (- 1 :: real) \<le> 1" by simp
  show ?thesis using a b
    by (simp add: calculate_payoffs_def simple_call_option_def Let_def max_def)
qed

lemma np_mean_one_of_four: "np_mean [0, a, 0, 0] = Some (a / 4)"
  by (simp add: np_mean_def)

lemma np_std_ddof1_one_of_four:
  assumes "0 \<le> a"
  shows "np_std_ddof1 [0, a, 0, 0] = Some (a / 2)"
proof -
  have m: "sum_list [0, a, 0, 0] / real (length [0, a, 0, 0]) = a / 4" by simp
  have "((0 - a / 4) ^ 2 + ((a - a / 4) ^ 2 + ((0 - a / 4) ^ 2 + ((0 - a / 4) ^ 2 + 0)))) / 3
          = (a / 2) ^ 2"
    by (simp add: power2_eq_square field_simps)
  then have r: "sum_list (map (\<lambda>x. (x - a / 4) ^ 2) [0, a, 0, 0]) / real (length [0, a, 0, 0] - 1)
          = (a / 2) ^ 2"
    by simp
  have "sqrt ((a / 2) ^ 2) = a / 2" using assms by simp
  then show ?thesis
    unfolding np_std_ddof1_def Let_def m r by simp
qed

lemma at_the_money_price:
  "MonteCarloModel_price sample_lib
     (MonteCarloModel (simple_call_option\<lparr>spot_price := 1, strike_price := 1, volatility := 1,
        risk_free_rate := 1 / 2\<rparr>) 4 True (Some 42)) cache g
     = (Inr (Some (exp (- (1 / 2)) * ((exp 1 - 1) / 4))),
        \<lparr> last_paths = Some [1, exp 1, 1, exp (- 1)],
          standard_error = Some (Some (exp (- (1 / 2)) * ((exp 1 - 1) / 2) / 2)) \<rparr>, 44)"
proof -
  have a: "(0 :: real) \<le> exp 1 - 1" by simp
  have r: "risk_free_rate (simple_call_option\<lparr>spot_price := 1, strike_price := 1,
             volatility := 1, risk_free_rate := 1 / 2\<rparr>) = 1 / 2"
    "time_to_expiry (simple_call_option\<lparr>spot_price := 1, strike_price := 1,
             volatility := 1, risk_free_rate := 1 / 2\<rparr>) = 1"
    by (simp_all add: simple_call_option_def)
  show ?thesis
    by (simp add: MonteCarloModel_price_def at_the_money_paths at_the_money_payoffs
        Let_def np_mean_one_of_four np_std_ddof1_one_of_four [OF a] fl_scale_def fl_div_def r)
qed

lemma at_the_money_interval:
  "get_confidence_interval sample_lib
     (MonteCarloModel (simple_call_option\<lparr>spot_price := 1, strike_price := 1, volatility := 1,
        risk_free_rate := 1 / 2\<rparr>) 4 True (Some 42)) (95 / 100) cache g
     = (Inr (Some (exp (- (1 / 2)) * ((exp 1 - 1) / 4)
                   - norm_ppf sample_lib ((1 + 95 / 100) / 2)
                     * (exp (- (1 / 2)) * ((exp 1 - 1) / 2) / 2)),
             Some (exp (- (1 / 2)) * ((exp 1 - 1) / 4)
                   + norm_ppf sample_lib ((1 + 95 / 100) / 2)
                     * (exp (- (1 / 2)) * ((exp 1 - 1) / 2) / 2))),
        \<lparr> last_paths = Some [1, exp 1, 1, exp (- 1)],
          standard_error = Some (Some (exp (- (1 / 2)) * ((exp 1 - 1) / 2) / 2)) \<rparr>, 44)"
  unfolding get_confidence_interval_def at_the_money_price
  by (simp add: Let_def fl_scale_def fl_sub_def fl_add_def)

theorem confidence_interval_contains_price_witness:
  "fst (MonteCarloModel_price sample_lib
       (MonteCarloModel (simple_call_option\<lparr>spot_price := 1, strike_price := 1, volatility := 1,
          risk_free_rate := 1 / 2\<rparr>) 4 True (Some 42)) empty_cache 0)
     = Inr (Some (exp (- (1 / 2)) * ((exp 1 - 1) / 4)))
   \<and> fst (get_confidence_interval sample_lib
       (MonteCarloModel (simple_call_option\<lparr>spot_price := 1, strike_price := 1, volatility := 1,
          risk_free_rate := 1 / 2\<rparr>) 4 True (Some 42)) (95 / 100) empty_cache 0)
     = Inr (Some (exp (- (1 / 2)) * ((exp 1 - 1) / 4)
                   - ln 39 * (exp (- (1 / 2)) * ((exp 1 - 1) / 2) / 2)),
            Some (exp (- (1 / 2)) * ((exp 1 - 1) / 4)
                   + ln 39 * (exp (- (1 / 2)) * ((exp 1 - 1) / 2) / 2)))
   \<and> (0 :: real) < exp (- (1 / 2)) * ((exp 1 - 1) / 2) / 2
   \<and> exp (- (1 / 2)) * ((exp 1 - 1) / 4) - ln 39 * (exp (- (1 / 2)) * ((exp 1 - 1) / 2) / 2)
       < (exp (- (1 / 2)) * ((exp 1 - 1) / 4) :: real)
   \<and> (exp (- (1 / 2)) * ((exp 1 - 1) / 4) :: real)
       < exp (- (1 / 2)) * ((exp 1 - 1) / 4) + ln 39 * (exp (- (1 / 2)) * ((exp 1 - 1) / 2) / 2)"
proof -
  let ?W = "MonteCarloModel (simple_call_option\<lparr>spot_price := 1, strike_price := 1,
              volatility := 1, risk_free_rate := 1 / 2\<rparr>) 4 True (Some 42)"
  define P :: real where "P = exp (- (1 / 2)) * ((exp 1 - 1) / 4)"
  define SE :: real where "SE = exp (- (1 / 2)) * ((exp 1 - 1) / 2) / 2"
  define Z :: real where "Z = norm_ppf sample_lib ((1 + 95 / 100) / 2)"
  have run: "get_confidence_interval sample_lib ?W (95 / 100) empty_cache 0
      = (Inr (Some (P - Z * SE), Some (P + Z * SE)),
         \<lparr> last_paths = Some [1, exp 1, 1, exp (- 1)], standard_error = Some (Some SE) \<rparr>, 44)"
    unfolding P_def SE_def Z_def by (rule at_the_money_interval)
  have pr: "MonteCarloModel_price sample_lib ?W empty_cache 0
      = (Inr (Some P),
         \<lparr> last_paths = Some [1, exp 1, 1, exp (- 1)], standard_error = Some (Some SE) \<rparr>, 44)"
    unfolding P_def SE_def by (rule at_the_money_price)
  have zv: "Z = ln 39" unfolding Z_def by (rule logistic_ppf_value)
  have zp: "0 < norm_ppf sample_lib ((1 + 95 / 100) / 2)" by (rule logistic_ppf_positive)
  obtain ST p se where
    a: "MonteCarloModel_price sample_lib ?W empty_cache 0
          = (Inr (Some p), \<lparr> last_paths = Some ST, standard_error = Some (Some se) \<rparr>, 44)"
    and b: "(P - Z * SE < p \<and> p < P + Z * SE) \<longleftrightarrow> 0 < se"
    using confidence_interval_contains_price [OF zp run [unfolded Z_def]]
    unfolding Z_def by blast
  have e: "p = P" "se = SE" using a pr by simp_all
  have "(1 :: real) < exp 1" by simp
  then have s: "0 < SE" unfolding SE_def by simp
  then have c: "P - Z * SE < P \<and> P < P + Z * SE" using b e by simp
  show ?thesis
    using pr run s c unfolding zv unfolding P_def SE_def by simp
qed

lemma out_of_the_money_paths:
  "generate_price_paths sample_lib
     (MonteCarloModel (simple_call_option\<lparr>spot_price := 1, strike_price := 10, volatility := 1,
        risk_free_rate := 1 / 2\<rparr>) 4 True (Some 42)) g
     = (Inr [1, exp 1, 1, exp (- 1)], 44)"
  by (simp add: generate_price_paths_def np_random_seed_def np_random_standard_normal_def
      sample_lib_def cycle_draw_def Let_def simple_call_option_def draws_two)

lemma out_of_the_money_payoffs:
  "calculate_payoffs (simple_call_option\<lparr>spot_price := 1, strike_price := 10, volatility := 1,
        risk_free_rate := 1 / 2\<rparr>) [1, exp 1, 1, exp (- 1)] = [0, 0, 0, 0]"
proof -
  have a: "exp (1 :: real) \<le> 10" using exp_le by linarith
  have "exp (- 1 :: real) \<le> 1" by simp
  then have b: "exp (- 1 :: real) \<le> 10" by linarith
  show ?thesis using a b
    by (simp add: calculate_payoffs_def simple_call_option_def Let_def max_def)
qed

lemma out_of_the_money_price:
  "MonteCarloModel_price sample_lib
     (MonteCarloModel (simple_call_option\<lparr>spot_price := 1, strike_price := 10, volatility := 1,
        risk_free_rate := 1 / 2\<rparr>) 4 True (Some 42)) cache g
     = (Inr (Some 0),
        \<lparr> last_paths = Some [1, exp 1, 1, exp (- 1)], standard_error = Some (Some 0) \<rparr>, 44)"
  by (simp add: MonteCarloModel_price_def out_of_the_money_paths out_of_the_money_payoffs
      Let_def np_mean_def np_std_ddof1_def fl_scale_def fl_div_def)

lemma out_of_the_money_interval:
  "get_confidence_interval sample_lib
     (MonteCarloModel (simple_call_option\<lparr>spot_price := 1, strike_price := 10, volatility := 1,
        risk_free_rate := 1 / 2\<rparr>) 4 True (Some 42)) (95 / 100) cache g
     = (Inr (Some 0, Some 0),
        \<lparr> last_paths = Some [1, exp 1, 1, exp (- 1)], standard_error = Some (Some 0) \<rparr>, 44)"
  by (simp add: get_confidence_interval_def out_of_the_money_price Let_def
      fl_scale_def fl_sub_def fl_add_def)

lemma np_std_ddof1_constant:
  assumes "2 \<le> n"
  shows "np_std_ddof1 (replicate n c) = Some 0"
proof -
  have m: "sum_list (replicate n c) / real n = c"
    using assms by (simp add: sum_list_replicate)
  show ?thesis
    using assms by (simp add: np_std_ddof1_def Let_def m sum_list_replicate)
qed

text \<open>
  The claim as stated asks for the price to lie strictly inside its interval in every
  run. For a call with spot 1 and strike 10 priced on four antithetic paths, every payoff
  is zero: the price is 0, the standard error is 0 and the interval is \<open>(0, 0)\<close>. The
  standard deviation of any sample of equal payoffs is zero (\<open>np_std_ddof1_constant\<close>),
  so the same happens with every generator whose draws leave the option out of the money
  on every path.
\<close>

theorem degenerate_interval_counterexample:
  "fst (get_confidence_interval sample_lib
       (MonteCarloModel (simple_call_option\<lparr>spot_price := 1, strike_price := 10, volatility := 1,
          risk_free_rate := 1 / 2\<rparr>) 4 True (Some 42)) (95 / 100) empty_cache 0)
     = Inr (Some 0, Some 0)
   \<and> fst (MonteCarloModel_price sample_lib
       (MonteCarloModel (simple_call_option\<lparr>spot_price := 1, strike_price := 10, volatility := 1,
          risk_free_rate := 1 / 2\<rparr>) 4 True (Some 42)) empty_cache 0)
     = Inr (Some 0)"
  by (simp only: out_of_the_money_interval out_of_the_money_price fst_conv simp_thms)

text \<open>
  An engine built with \<open>random_seed=None\<close> draws new values in every call. The price that
  \<open>get_confidence_interval\<close> reports its interval around is the one it computes itself;
  a price returned by an earlier call of \<open>price\<close> is another sample. With a generator in
  state 3, the first call draws 1 and 2 and returns a positive price; the interval of
  the call that follows is computed from the draws -2 and -1, on which the option ends
  out of the money, and is \<open>(0, 0)\<close>.
\<close>

lemma unseeded_paths_first:
  "generate_price_paths sample_lib
     (MonteCarloModel (simple_call_option\<lparr>spot_price := 1, strike_price := 1, volatility := 1,
        risk_free_rate := 1 / 2\<rparr>) 2 False None) 3
     = (Inr [exp 1, exp 2], 5)"
  by (simp add: generate_price_paths_def np_random_standard_normal_def
      sample_lib_def cycle_draw_def Let_def simple_call_option_def draws_two)

lemma unseeded_paths_second:
  "generate_price_paths sample_lib
     (MonteCarloModel (simple_call_option\<lparr>spot_price := 1, strike_price := 1, volatility := 1,
        risk_free_rate := 1 / 2\<rparr>) 2 False None) 5
     = (Inr [exp (- 2), exp (- 1)], 7)"
  by (simp add: generate_price_paths_def np_random_standard_normal_def
      sample_lib_def cycle_draw_def Let_def simple_call_option_def draws_two)

lemma unseeded_price_outside_interval:
  "fst (MonteCarloModel_price sample_lib
       (MonteCarloModel (simple_call_option\<lparr>spot_price := 1, strike_price := 1, volatility := 1,
          risk_free_rate := 1 / 2\<rparr>) 2 False None) empty_cache 3)
     = Inr (Some (exp (- (1 / 2)) * ((exp 1 - 1 + (exp 2 - 1)) / 2)))
   \<and> snd (snd (MonteCarloModel_price sample_lib
       (MonteCarloModel (simple_call_option\<lparr>spot_price := 1, strike_price := 1, volatility := 1,
          risk_free_rate := 1 / 2\<rparr>) 2 False None) empty_cache 3)) = 5
   \<and> fst (get_confidence_interval sample_lib
       (MonteCarloModel (simple_call_option\<lparr>spot_price := 1, strike_price := 1, volatility := 1,
          risk_free_rate := 1 / 2\<rparr>) 2 False None) (95 / 100) cache 5)
     = Inr (Some 0, Some 0)
   \<and> (0 :: real) < exp (- (1 / 2)) * ((exp 1 - 1 + (exp 2 - 1)) / 2)"
proof -
  let ?opt = "simple_call_option\<lparr>spot_price := 1, strike_price := 1, volatility := 1,
          risk_free_rate := 1 / 2\<rparr>"
  have r: "risk_free_rate ?opt = 1 / 2" "time_to_expiry ?opt = 1" "strike_price ?opt = 1"
    "option_type ?opt = CALL"
    by (simp_all add: simple_call_option_def)
  have a: "(1 :: real) \<le> exp 1" "(1 :: real) \<le> exp 2" by simp_all
  have b: "exp (- 1 :: real) \<le> 1" "exp (- 2 :: real) \<le> 1" by simp_all
  have p1: "calculate_payoffs ?opt [exp 1, exp 2] = [exp 1 - 1, exp 2 - 1]"
    using a by (simp add: calculate_payoffs_def r Let_def max_def)
  have p2: "calculate_payoffs ?opt [exp (- 2), exp (- 1)] = [0, 0]"
    using b by (simp add: calculate_payoffs_def r Let_def max_def)
  have c1: "fst (MonteCarloModel_price sample_lib (MonteCarloModel ?opt 2 False None) empty_cache 3)
     = Inr (Some (exp (- (1 / 2)) * ((exp 1 - 1 + (exp 2 - 1)) / 2)))"
    by (simp add: MonteCarloModel_price_def unseeded_paths_first p1 Let_def np_mean_def
        fl_scale_def r)
  have c2: "snd (snd (MonteCarloModel_price sample_lib (MonteCarloModel ?opt 2 False None)
       empty_cache 3)) = 5"
    by (simp add: MonteCarloModel_price_def unseeded_paths_first Let_def)
  have c3: "fst (get_confidence_interval sample_lib (MonteCarloModel ?opt 2 False None)
       (95 / 100) cache 5) = Inr (Some 0, Some 0)"
    by (simp add: get_confidence_interval_def MonteCarloModel_price_def unseeded_paths_second p2
        Let_def np_mean_def np_std_ddof1_def fl_scale_def fl_div_def fl_sub_def fl_add_def r)
  have e1: "(1 :: real) < exp 1" by simp
  have e2: "(1 :: real) < exp 2" by simp
  have "(0 :: real) < exp 1 - 1 + (exp 2 - 1)" using e1 e2 by linarith
  then have "(0 :: real) < (exp 1 - 1 + (exp 2 - 1)) / 2" by (rule half_gt_zero)
  then have c4: "(0 :: real) < exp (- (1 / 2)) * ((exp 1 - 1 + (exp 2 - 1)) / 2)"
    by (simp add: zero_less_mult_iff)
  show ?thesis using c1 c2 c3 c4 by blast
qed

section \<open>The lattice: American and European exercise\<close>

lemma build_stock_tree_style [simp]:
  "build_stock_tree (kw\<lparr>exercise_style := s\<rparr>) n i j = build_stock_tree kw n i j"
  by (simp add: build_stock_tree_def)

lemma risk_neutral_probability_style [simp]:
  "calculate_risk_neutral_probability (kw\<lparr>exercise_style := s\<rparr>) n
     = calculate_risk_neutral_probability kw n"
  by (simp add: calculate_risk_neutral_probability_def)

lemma get_payoff_style [simp]:
  "get_payoff (kw\<lparr>exercise_style := s\<rparr>) x = get_payoff kw x"
  by (simp add: get_payoff_def)






lemma length_induct_row [simp]: "length (induct_row opt n i row) = i + 1"
  by (simp add: induct_row_def)





















end
